theory Spec2Isabelle
  imports Complex_Main
begin

section \<open>Data model\<close>

text \<open>
  Python floats are modelled as real numbers; \<open>float('inf')\<close>, which
  \<open>calculate_distance\<close> returns from its exception handler, is the extra value \<open>Inf\<close>.
\<close>

datatype pyfloat = Fin real | Inf

fun pyfloat_gt :: "pyfloat \<Rightarrow> real \<Rightarrow> bool" where
  "pyfloat_gt (Fin d) r = (d > r)"
| "pyfloat_gt Inf r = True"

text \<open>
  A location is the dict built by the decoder. A field is \<open>None\<close> when the dict has no
  such key; reading it with \<open>location['k']\<close> then raises KeyError, \<open>location.get('k')\<close>
  yields Python's None.
\<close>

record location =
  latitude :: "real option"
  longitude :: "real option"
  altitude :: "real option"
  speed :: "real option"
  timestamp :: nat
  satellites :: "string option"
  fix_quality :: "int option"
  hdop :: "real option"
  fix_valid :: "bool option"

text \<open>
  The two alert messages of the tracker: the f-strings
  \<open>Patient left safe area. Distance: ...m from center\<close> (carrying the distance) and
  \<open>GPS signal lost for ... seconds\<close> (carrying the number of seconds).
\<close>

datatype alert_message = Patient_left_safe_area pyfloat | GPS_signal_lost nat

text \<open>A row of the \<open>alerts\<close> table; \<open>sms_sent\<close> and \<open>resolved\<close> default to 0.\<close>

record alert =
  alert_id :: nat
  alert_patient_id :: string
  alert_type :: string
  message :: alert_message
  alert_latitude :: "real option"
  alert_longitude :: "real option"
  alert_timestamp :: nat
  sms_sent :: bool
  resolved :: bool

text \<open>A row of the \<open>locations\<close> table.\<close>

record location_row =
  row_patient_id :: string
  row_latitude :: "real option"
  row_longitude :: "real option"
  row_altitude :: "real option"
  row_speed :: "real option"
  row_timestamp :: nat
  row_satellites :: "string option"
  row_accuracy :: "real option"

text \<open>
  The \<open>PatientTracker\<close> object of \<open>patient_tracker_new.py\<close>, with the tables of its
  database, which is taken to accept every write. \<open>gsm_serial\<close> is \<open>None\<close> when no
  modem is attached; otherwise it tells, for a destination number, whether the modem
  answers \<open>+CMGS:\<close> to the send command.
\<close>

record tracker =
  patient_id :: string
  emergency_contacts :: "string list"
  update_interval :: nat
  geofence_enabled :: bool
  geofence_lat :: real
  geofence_lon :: real
  geofence_radius :: real
  gsm_serial :: "(string \<Rightarrow> bool) option"
  current_location :: "location option"
  alerts :: "alert list"
  locations :: "location_row list"
  system_status :: "(string \<times> string \<times> alert_message) list"

section \<open>Geofence evaluation (\<open>patient_tracker_new.py\<close>)\<close>

definition radians :: "real \<Rightarrow> real" where
  "radians x = x * pi / 180"

text \<open>
  \<open>calculate_distance\<close>: \<open>math.sqrt\<close> raises on a negative argument and \<open>math.asin\<close>
  outside \<open>[-1, 1]\<close>; the handler turns either into \<open>float('inf')\<close>.
\<close>

definition calculate_distance :: "real \<Rightarrow> real \<Rightarrow> real \<Rightarrow> real \<Rightarrow> pyfloat" where
  "calculate_distance lat1 lon1 lat2 lon2 =
     (let lat1_rad = radians lat1; lon1_rad = radians lon1;
          lat2_rad = radians lat2; lon2_rad = radians lon2;
          dlat = lat2_rad - lat1_rad; dlon = lon2_rad - lon1_rad;
          a = (sin (dlat / 2))\<^sup>2 + cos lat1_rad * cos lat2_rad * (sin (dlon / 2))\<^sup>2
      in if a < 0 then Inf
         else if sqrt a < - 1 \<or> 1 < sqrt a then Inf
         else Fin (2 * arcsin (sqrt a) * 6371000))"

text \<open>\<open>send_sms_alert\<close>: false without a modem, else the modem's acknowledgement.\<close>

definition send_sms_alert :: "tracker \<Rightarrow> string \<Rightarrow> bool" where
  "send_sms_alert t phone_number =
     (case gsm_serial t of None \<Rightarrow> False | Some modem \<Rightarrow> modem phone_number)"

text \<open>
  \<open>trigger_alert\<close>: insert the alert row (autoincrement id), send one SMS per emergency
  contact when a modem is attached, set \<open>sms_sent\<close> on the row just inserted when at
  least one SMS went out, and log the event. \<open>now\<close> is the reading of \<open>datetime.now()\<close>.
\<close>

definition trigger_alert ::
  "string \<Rightarrow> alert_message \<Rightarrow> real \<Rightarrow> real \<Rightarrow> nat \<Rightarrow> tracker \<Rightarrow> tracker" where
  "trigger_alert ty msg lat lon now t =
     (let sms_sent_count =
            (case gsm_serial t of
               None \<Rightarrow> 0
             | Some modem \<Rightarrow> length (filter (send_sms_alert t) (emergency_contacts t)));
          row = \<lparr> alert_id = Suc (length (alerts t)), alert_patient_id = patient_id t,
                  alert_type = ty, message = msg,
                  alert_latitude = Some lat, alert_longitude = Some lon,
                  alert_timestamp = now, sms_sent = (sms_sent_count > 0), resolved = False \<rparr>
      in t \<lparr> alerts := alerts t @ [row],
             system_status := system_status t @ [(''ALERT'', ty, msg)] \<rparr>)"

text \<open>
  \<open>check_geofence\<close>: returns the truth value and the tracker after any alert. A missing
  coordinate key raises KeyError inside the \<open>try\<close>, whose handler returns True.
\<close>

definition check_geofence :: "location \<Rightarrow> nat \<Rightarrow> tracker \<Rightarrow> bool \<times> tracker" where
  "check_geofence loc now t =
     (if \<not> geofence_enabled t then (True, t)
      else (case (latitude loc, longitude loc) of
              (Some la, Some lo) \<Rightarrow>
                (let distance = calculate_distance la lo (geofence_lat t) (geofence_lon t)
                 in if pyfloat_gt distance (geofence_radius t)
                    then (False, trigger_alert ''GEOFENCE_BREACH''
                                   (Patient_left_safe_area distance) la lo now t)
                    else (True, t))
            | _ \<Rightarrow> (True, t)))"

section \<open>Decoding (\<open>patient_tracker_new.py\<close>)\<close>

text \<open>
  Python's \<open>str.split(sep)\<close> for a one-character separator. The result is never
  empty, so the last case is not reached.
\<close>

fun split_on :: "char \<Rightarrow> string \<Rightarrow> string list" where
  "split_on c [] = [[]]"
| "split_on c (x # xs) =
     (if x = c then [] # split_on c xs
      else (case split_on c xs of
              w # ws \<Rightarrow> (x # w) # ws
            | [] \<Rightarrow> [[x]]))"

text \<open>Python's \<open>str.isspace\<close> on the ASCII characters the serial port delivers.\<close>

definition py_isspace :: "char \<Rightarrow> bool" where
  "py_isspace c \<longleftrightarrow>
     c \<in> set [CHR 0x09, CHR 0x0A, CHR 0x0B, CHR 0x0C, CHR 0x0D,
                CHR 0x1C, CHR 0x1D, CHR 0x1E, CHR 0x1F, CHR 0x20]"

definition strip :: "string \<Rightarrow> string" where
  "strip s = rev (dropWhile py_isspace (rev (dropWhile py_isspace s)))"

definition startswith :: "string \<Rightarrow> string \<Rightarrow> bool" where
  "startswith s p \<longleftrightarrow> take (length p) s = p"

datatype py_exception = ParseError | KeyError | TypeError | ValueError | AttributeError

text \<open>
  What the code reads from a parsed sentence: \<open>msg.latitude\<close>, \<open>msg.longitude\<close>,
  \<open>msg.altitude\<close>, \<open>msg.num_sats\<close>, \<open>msg.gps_qual\<close>, \<open>msg.hdop\<close>,
  \<open>msg.spd_over_grnd\<close> and \<open>msg.is_valid\<close>.
\<close>

record nmea_msg =
  msg_latitude :: real
  msg_longitude :: real
  msg_altitude :: "real option"
  num_sats :: "string option"
  gps_qual :: "int option"
  msg_hdop :: "real option"
  spd_over_grnd :: "real option"
  is_valid :: bool

text \<open>
  \<open>pynmea2\<close> is a third-party library: its \<open>parse\<close>, together with the attribute reads
  the code makes on the result inside the same \<open>try\<close>, is a parameter of the decoder.
  \<open>Inl e\<close> says that exception \<open>e\<close> is raised there.
\<close>

type_synonym pynmea2 = "string \<Rightarrow> py_exception + nmea_msg"

definition gga_location :: "nmea_msg \<Rightarrow> nat \<Rightarrow> location" where
  "gga_location msg now =
     \<lparr> latitude = Some (msg_latitude msg), longitude = Some (msg_longitude msg),
       altitude = msg_altitude msg, speed = None, timestamp = now,
       satellites = num_sats msg, fix_quality = gps_qual msg, hdop = msg_hdop msg,
       fix_valid = None \<rparr>"

text \<open>\<open>msg.spd_over_grnd * 1.852 if msg.spd_over_grnd else 0\<close> (knots to km/h).\<close>

definition rmc_speed :: "real option \<Rightarrow> real" where
  "rmc_speed spd = (case spd of None \<Rightarrow> 0 | Some v \<Rightarrow> if v = 0 then 0 else v * 1.852)"

definition rmc_location :: "nmea_msg \<Rightarrow> nat \<Rightarrow> location" where
  "rmc_location msg now =
     \<lparr> latitude = Some (msg_latitude msg), longitude = Some (msg_longitude msg),
       altitude = None, speed = Some (rmc_speed (spd_over_grnd msg)), timestamp = now,
       satellites = None, fix_quality = None, hdop = None,
       fix_valid = Some (is_valid msg) \<rparr>"

text \<open>
  The \<open>for\<close> loop of \<open>parse_gps_data\<close>: \<open>Inl e\<close> when an exception other than
  \<open>ParseError\<close> leaves the inner \<open>try\<close>, \<open>Inr (Some loc)\<close> at the first \<open>return\<close>,
  \<open>Inr None\<close> when the lines are exhausted.
\<close>

fun scan_lines :: "pynmea2 \<Rightarrow> nat \<Rightarrow> string list \<Rightarrow> py_exception + location option" where
  "scan_lines parse now [] = Inr None"
| "scan_lines parse now (l # ls) =
     (let line = strip l in
      if line = [] \<or> \<not> startswith line ''$'' then scan_lines parse now ls
      else if startswith line ''$GPGGA'' then
        (case parse line of
           Inl ParseError \<Rightarrow> scan_lines parse now ls
         | Inl e \<Rightarrow> Inl e
         | Inr msg \<Rightarrow> Inr (Some (gga_location msg now)))
      else if startswith line ''$GPRMC'' then
        (case parse line of
           Inl ParseError \<Rightarrow> scan_lines parse now ls
         | Inl e \<Rightarrow> Inl e
         | Inr msg \<Rightarrow> Inr (Some (rmc_location msg now)))
      else scan_lines parse now ls)"

text \<open>\<open>parse_gps_data\<close>: the outer handler turns every exception into \<open>None\<close>.\<close>

definition parse_gps_data :: "pynmea2 \<Rightarrow> nat \<Rightarrow> string \<Rightarrow> location option" where
  "parse_gps_data parse now raw_data =
     (case scan_lines parse now (split_on CHR 0x0A raw_data) of
        Inl e \<Rightarrow> None
      | Inr r \<Rightarrow> r)"

section \<open>Decoding (\<open>patient_tracker.py\<close>)\<close>

definition pt_gga_location :: "nmea_msg \<Rightarrow> nat \<Rightarrow> location" where
  "pt_gga_location msg now =
     \<lparr> latitude = Some (msg_latitude msg), longitude = Some (msg_longitude msg),
       altitude = msg_altitude msg, speed = None, timestamp = now,
       satellites = num_sats msg, fix_quality = gps_qual msg, hdop = None,
       fix_valid = None \<rparr>"

definition pt_rmc_location :: "nmea_msg \<Rightarrow> nat \<Rightarrow> location" where
  "pt_rmc_location msg now =
     \<lparr> latitude = Some (msg_latitude msg), longitude = Some (msg_longitude msg),
       altitude = None, speed = spd_over_grnd msg, timestamp = now,
       satellites = None, fix_quality = None, hdop = None,
       fix_valid = Some (is_valid msg) \<rparr>"

text \<open>The loop has no inner \<open>try\<close>: the first exception of any kind leaves it.\<close>

fun pt_scan_lines :: "pynmea2 \<Rightarrow> nat \<Rightarrow> string list \<Rightarrow> py_exception + location option" where
  "pt_scan_lines parse now [] = Inr None"
| "pt_scan_lines parse now (line # ls) =
     (if startswith line ''$GPGGA'' then
        (case parse line of
           Inl e \<Rightarrow> Inl e
         | Inr msg \<Rightarrow> Inr (Some (pt_gga_location msg now)))
      else if startswith line ''$GPRMC'' then
        (case parse line of
           Inl e \<Rightarrow> Inl e
         | Inr msg \<Rightarrow> Inr (Some (pt_rmc_location msg now)))
      else pt_scan_lines parse now ls)"

definition pt_parse_gps_data :: "pynmea2 \<Rightarrow> nat \<Rightarrow> string \<Rightarrow> location option" where
  "pt_parse_gps_data parse now gps_data =
     (case pt_scan_lines parse now (split_on CHR 0x0A gps_data) of
        Inl e \<Rightarrow> None
      | Inr r \<Rightarrow> r)"

section \<open>Decoding (\<open>tracker.py\<close>)\<close>

record nmea_fix =
  lat :: real
  lon :: real
  time :: nat

text \<open>
  Python's \<open>float(str)\<close> is a parameter \<open>float_of\<close> of \<open>parse_nmea\<close>: \<open>None\<close> when it
  raises ValueError. \<open>gga_fields\<close> is the body of the inner \<open>if\<close>, reached only when
  \<open>parts\<close> has more than five elements, so every index it reads exists.
\<close>

definition gga_fields :: "(string \<Rightarrow> real option) \<Rightarrow> string list \<Rightarrow> py_exception + real \<times> real" where
  "gga_fields float_of parts =
     (case (float_of (take 2 (parts ! 2)), float_of (drop 2 (parts ! 2))) of
        (Some d, Some m) \<Rightarrow>
          (let lat0 = d + m / 60;
               lat1 = (if parts ! 3 = ''S'' then - lat0 else lat0)
           in case (float_of (take 3 (parts ! 4)), float_of (drop 3 (parts ! 4))) of
                (Some d', Some m') \<Rightarrow>
                  (let lon0 = d' + m' / 60;
                       lon1 = (if parts ! 5 = ''W'' then - lon0 else lon0)
                   in Inr (lat1, lon1))
              | _ \<Rightarrow> Inl ValueError)
      | _ \<Rightarrow> Inl ValueError)"

fun nmea_lines :: "(string \<Rightarrow> real option) \<Rightarrow> nat \<Rightarrow> string list \<Rightarrow> py_exception + nmea_fix option" where
  "nmea_lines float_of now [] = Inr None"
| "nmea_lines float_of now (line # ls) =
     (if startswith line ''$GPGGA'' then
        (let parts = split_on CHR '','' line in
         if length parts > 5 \<and> parts ! 2 \<noteq> [] \<and> parts ! 4 \<noteq> [] then
           (case gga_fields float_of parts of
              Inl e \<Rightarrow> Inl e
            | Inr (la, lo) \<Rightarrow> Inr (Some \<lparr> lat = la, lon = lo, time = now \<rparr>))
         else nmea_lines float_of now ls)
      else nmea_lines float_of now ls)"

text \<open>\<open>parse_nmea\<close>: the bare \<open>except\<close> turns every exception into \<open>None\<close>.\<close>

definition parse_nmea :: "(string \<Rightarrow> real option) \<Rightarrow> nat \<Rightarrow> string \<Rightarrow> nmea_fix option" where
  "parse_nmea float_of now data =
     (case nmea_lines float_of now (split_on CHR 0x0A data) of
        Inl e \<Rightarrow> None
      | Inr r \<Rightarrow> r)"

text \<open>
  \<open>float\<close> on the plain decimal literals GPS receivers send: an optional sign, digits,
  and an optional fraction. The other literals Python accepts (exponents, infinities,
  underscores) are left to the parameter; this function serves the concrete inputs.
\<close>

definition is_digit :: "char \<Rightarrow> bool" where
  "is_digit c \<longleftrightarrow> c \<in> set ''0123456789''"

definition digits_val :: "string \<Rightarrow> nat" where
  "digits_val ds = foldl (\<lambda>n c. 10 * n + (of_char c - 48)) 0 ds"

definition unsigned_float :: "string \<Rightarrow> real option" where
  "unsigned_float s =
     (let ip = takeWhile is_digit s; rest = dropWhile is_digit s in
      if rest = [] then (if ip = [] then None else Some (real (digits_val ip)))
      else if hd rest = CHR ''.'' \<and> list_all is_digit (tl rest) \<and> (ip \<noteq> [] \<or> tl rest \<noteq> [])
      then Some (real (digits_val ip) + real (digits_val (tl rest)) / 10 ^ length (tl rest))
      else None)"

definition dec_float :: "string \<Rightarrow> real option" where
  "dec_float s =
     (case strip s of
        [] \<Rightarrow> None
      | c # cs \<Rightarrow>
          if c = CHR ''-'' then map_option uminus (unsigned_float cs)
          else if c = CHR ''+'' then unsigned_float cs
          else unsigned_float (c # cs))"

section \<open>Tracking loop (\<open>patient_tracker_new.py\<close>)\<close>

text \<open>
  \<open>get_gps_location\<close>: the bytes waiting on the serial port are \<open>Some raw_data\<close>;
  \<open>None\<close> stands for no port, nothing waiting or a failed read.
\<close>

definition get_gps_location ::
  "pynmea2 \<Rightarrow> nat \<Rightarrow> string option \<Rightarrow> tracker \<Rightarrow> location option \<times> tracker" where
  "get_gps_location parse now port t =
     (case port of
        None \<Rightarrow> (None, t)
      | Some raw_data \<Rightarrow>
          (case parse_gps_data parse now raw_data of
             None \<Rightarrow> (None, t)
           | Some loc \<Rightarrow> (Some loc, t \<lparr> current_location := Some loc \<rparr>)))"

definition store_location :: "location \<Rightarrow> tracker \<Rightarrow> tracker" where
  "store_location loc t =
     t \<lparr> locations := locations t @
           [\<lparr> row_patient_id = patient_id t, row_latitude = latitude loc,
              row_longitude = longitude loc, row_altitude = altitude loc,
              row_speed = speed loc, row_timestamp = timestamp loc,
              row_satellites = satellites loc, row_accuracy = hdop loc \<rparr>] \<rparr>"

text \<open>The local variables of \<open>tracking_loop\<close>.\<close>

record loop_vars =
  update_count :: nat
  consecutive_failures :: nat

text \<open>
  One iteration of the \<open>while\<close> loop; \<open>now\<close> and \<open>port\<close> are what the clock and the
  serial port deliver in it. An exception inside the iteration (a KeyError on a
  coordinate) ends it with the state reached so far.
\<close>

definition tracking_cycle ::
  "pynmea2 \<Rightarrow> nat \<times> string option \<Rightarrow> loop_vars \<times> tracker \<Rightarrow> loop_vars \<times> tracker" where
  "tracking_cycle parse inp st =
     (let now = fst inp; port = snd inp;
          v1 = (fst st) \<lparr> update_count := update_count (fst st) + 1 \<rparr>;
          (location, t1) = get_gps_location parse now port (snd st)
      in case location of
           Some loc \<Rightarrow>
             (let v2 = v1 \<lparr> consecutive_failures := 0 \<rparr> in
              case (latitude loc, longitude loc) of
                (Some la, Some lo) \<Rightarrow>
                  (let t2 = store_location loc t1 in
                   if geofence_enabled t2 then (v2, snd (check_geofence loc now t2))
                   else (v2, t2))
              | _ \<Rightarrow> (v2, t1))
         | None \<Rightarrow>
             (let v2 = v1 \<lparr> consecutive_failures := consecutive_failures v1 + 1 \<rparr> in
              if consecutive_failures v2 \<ge> 6 then
                (let msg = GPS_signal_lost (consecutive_failures v2 * update_interval t1) in
                 case current_location t1 of
                   None \<Rightarrow> (v2, trigger_alert ''GPS_LOST'' msg 0 0 now t1)
                 | Some cur \<Rightarrow>
                     (case (latitude cur, longitude cur) of
                        (Some la, Some lo) \<Rightarrow> (v2, trigger_alert ''GPS_LOST'' msg la lo now t1)
                      | _ \<Rightarrow> (v2, t1)))
              else (v2, t1)))"

text \<open>
  \<open>while self.is_tracking\<close>: one iteration per poll, for the polls made until the flag
  is cleared.
\<close>

fun tracking_loop ::
  "pynmea2 \<Rightarrow> (nat \<times> string option) list \<Rightarrow> loop_vars \<times> tracker \<Rightarrow> loop_vars \<times> tracker" where
  "tracking_loop parse [] st = st"
| "tracking_loop parse (inp # inps) st = tracking_loop parse inps (tracking_cycle parse inp st)"

text \<open>The configuration set by \<open>__init__\<close>, before any poll.\<close>

definition initial_tracker :: "(string \<Rightarrow> bool) option \<Rightarrow> tracker" where
  "initial_tracker modem =
     \<lparr> patient_id = ''PATIENT001'',
       emergency_contacts = [''+918848776875'', ''+9175929912412''],
       update_interval = 10, geofence_enabled = True,
       geofence_lat = 40.7128, geofence_lon = - 74.0060, geofence_radius = 100,
       gsm_serial = modem, current_location = None,
       alerts = [], locations = [], system_status = [] \<rparr>"

definition initial_vars :: loop_vars where
  "initial_vars = \<lparr> update_count = 0, consecutive_failures = 0 \<rparr>"

section \<open>Geofence evaluation (\<open>patient_tracker.py\<close>, \<open>patient_tracker_fixed.py\<close>)\<close>

text \<open>
  \<open>trigger_alert\<close> of both files: insert the alert row, then send the SMS; the row keeps
  the defaults of \<open>sms_sent\<close> and \<open>resolved\<close>. The tracker record stands for the object
  and its configuration (\<open>config['geofence']\<close> in \<open>patient_tracker.py\<close>).
\<close>

definition pt_trigger_alert ::
  "string \<Rightarrow> alert_message \<Rightarrow> real \<Rightarrow> real \<Rightarrow> nat \<Rightarrow> tracker \<Rightarrow> tracker" where
  "pt_trigger_alert ty msg la lo now t =
     t \<lparr> alerts := alerts t @
           [\<lparr> alert_id = Suc (length (alerts t)), alert_patient_id = patient_id t,
              alert_type = ty, message = msg,
              alert_latitude = Some la, alert_longitude = Some lo,
              alert_timestamp = now, sms_sent = False, resolved = False \<rparr>] \<rparr>"

text \<open>
  The body of the \<open>try\<close> block of \<open>check_geofence\<close> in \<open>patient_tracker.py\<close>, with the
  tracker it leaves: \<open>Inl e\<close> when it raises \<open>e\<close>, \<open>Inr b\<close> when it returns \<open>b\<close>.
\<close>

definition pt_check_geofence_try ::
  "location \<Rightarrow> nat \<Rightarrow> tracker \<Rightarrow> (py_exception + bool) \<times> tracker" where
  "pt_check_geofence_try loc now t =
     (case latitude loc of
        None \<Rightarrow> (Inl KeyError, t)
      | Some la \<Rightarrow>
          (case longitude loc of
             None \<Rightarrow> (Inl KeyError, t)
           | Some lo \<Rightarrow>
               (let lat1 = radians la; lon1 = radians lo;
                    lat2 = radians (geofence_lat t); lon2 = radians (geofence_lon t);
                    dlat = lat2 - lat1; dlon = lon2 - lon1;
                    a = (sin (dlat / 2))\<^sup>2 + cos lat1 * cos lat2 * (sin (dlon / 2))\<^sup>2
                in if a < 0 then (Inl ValueError, t)
                   else if sqrt a < - 1 \<or> 1 < sqrt a then (Inl ValueError, t)
                   else (let c = 2 * arcsin (sqrt a); r = 6371; distance = c * r * 1000
                         in if distance > geofence_radius t
                            then (Inr False, pt_trigger_alert ''GEOFENCE_BREACH''
                                    (Patient_left_safe_area (Fin distance)) la lo now t)
                            else (Inr True, t)))))"

definition pt_check_geofence :: "location \<Rightarrow> nat \<Rightarrow> tracker \<Rightarrow> bool \<times> tracker" where
  "pt_check_geofence loc now t =
     (if \<not> geofence_enabled t then (True, t)
      else (case pt_check_geofence_try loc now t of
              (Inl e, t') \<Rightarrow> (True, t')
            | (Inr b, t') \<Rightarrow> (b, t')))"

text \<open>The same two functions of \<open>patient_tracker_fixed.py\<close>.\<close>

definition fixed_check_geofence_try ::
  "location \<Rightarrow> nat \<Rightarrow> tracker \<Rightarrow> (py_exception + bool) \<times> tracker" where
  "fixed_check_geofence_try loc now t =
     (case latitude loc of
        None \<Rightarrow> (Inl KeyError, t)
      | Some la \<Rightarrow>
          (case longitude loc of
             None \<Rightarrow> (Inl KeyError, t)
           | Some lo \<Rightarrow>
               (let lat1 = radians la; lon1 = radians lo;
                    lat2 = radians (geofence_lat t); lon2 = radians (geofence_lon t);
                    dlat = lat2 - lat1; dlon = lon2 - lon1;
                    a = (sin (dlat / 2))\<^sup>2 + cos lat1 * cos lat2 * (sin (dlon / 2))\<^sup>2
                in if a < 0 then (Inl ValueError, t)
                   else if sqrt a < - 1 \<or> 1 < sqrt a then (Inl ValueError, t)
                   else (let c = 2 * arcsin (sqrt a); r = 6371; distance = c * r * 1000
                         in if distance > geofence_radius t
                            then (Inr False, pt_trigger_alert ''GEOFENCE_BREACH''
                                    (Patient_left_safe_area (Fin distance)) la lo now t)
                            else (Inr True, t)))))"

definition fixed_check_geofence :: "location \<Rightarrow> nat \<Rightarrow> tracker \<Rightarrow> bool \<times> tracker" where
  "fixed_check_geofence loc now t =
     (if \<not> geofence_enabled t then (True, t)
      else (case fixed_check_geofence_try loc now t of
              (Inl e, t') \<Rightarrow> (True, t')
            | (Inr b, t') \<Rightarrow> (b, t')))"

section \<open>Resolving alerts (\<open>web_dashboard.py\<close>)\<close>

text \<open>
  \<open>mark_alert_resolved\<close>: \<open>UPDATE alerts SET resolved = 1 WHERE id = ?\<close>; a request
  without \<open>alert_id\<close> binds NULL, which matches no row.
\<close>

definition mark_alert_resolved :: "nat option \<Rightarrow> alert list \<Rightarrow> alert list" where
  "mark_alert_resolved request_id rows =
     (case request_id of
        None \<Rightarrow> rows
      | Some i \<Rightarrow> map (\<lambda>a. if alert_id a = i then a \<lparr> resolved := True \<rparr> else a) rows)"

text \<open>The rows the dashboard lists as open: \<open>WHERE resolved = 0\<close>.\<close>

definition open_alerts :: "alert list \<Rightarrow> alert list" where
  "open_alerts rows = filter (\<lambda>a. \<not> resolved a) rows"

section \<open>The specification's distance\<close>

text \<open>
  The haversine great-circle formula with Earth radius 6 371 000 m, as the
  specification words it, on coordinates in degrees.
\<close>

definition haversine_m :: "real \<Rightarrow> real \<Rightarrow> real \<Rightarrow> real \<Rightarrow> real" where
  "haversine_m lat1 lon1 lat2 lon2 =
     2 * 6371000 *
       arcsin (sqrt ((sin ((lat2 - lat1) * pi / 180 / 2))\<^sup>2
                     + cos (lat1 * pi / 180) * cos (lat2 * pi / 180)
                       * (sin ((lon2 - lon1) * pi / 180 / 2))\<^sup>2))"

text \<open>The argument of the square root in \<open>calculate_distance\<close>.\<close>

definition hav_arg :: "real \<Rightarrow> real \<Rightarrow> real \<Rightarrow> real \<Rightarrow> real" where
  "hav_arg lat1 lon1 lat2 lon2 =
     (sin ((radians lat2 - radians lat1) / 2))\<^sup>2
       + cos (radians lat1) * cos (radians lat2) * (sin ((radians lon2 - radians lon1) / 2))\<^sup>2"

section \<open>Sample inputs\<close>

text \<open>A location dict that holds the two coordinates only.\<close>

definition fix_at :: "real \<Rightarrow> real \<Rightarrow> location" where
  "fix_at la lo =
     \<lparr> latitude = Some la, longitude = Some lo, altitude = None, speed = None,
       timestamp = 0, satellites = None, fix_quality = None, hdop = None, fix_valid = None \<rparr>"

text \<open>A fix record that lacks the latitude key.\<close>

definition fix_without_latitude :: location where
  "fix_without_latitude = (fix_at 0 (- 74.0060)) \<lparr> latitude := None \<rparr>"

text \<open>The default configuration with the geofence switched off.\<close>

definition disabled_tracker :: tracker where
  "disabled_tracker = (initial_tracker None) \<lparr> geofence_enabled := False \<rparr>"

section \<open>Notions of the claims about decoding\<close>

text \<open>A recognised sentence: a line with one of the two prefixes the decoder handles.\<close>

definition recognized :: "string \<Rightarrow> bool" where
  "recognized line \<longleftrightarrow> startswith line ''$GPGGA'' \<or> startswith line ''$GPRMC''"

text \<open>
  A line of \<open>tracker.py\<close>'s input that decodes: a \<open>$GPGGA\<close> line with more than five
  fields, non-empty coordinate fields, and numbers in them.
\<close>

definition nmea_line_decodes :: "(string \<Rightarrow> real option) \<Rightarrow> string \<Rightarrow> bool" where
  "nmea_line_decodes float_of line \<longleftrightarrow>
     startswith line ''$GPGGA'' \<and>
     (let parts = split_on CHR '','' line in
      length parts > 5 \<and> parts ! 2 \<noteq> [] \<and> parts ! 4 \<noteq> [] \<and>
      (case gga_fields float_of parts of Inl e \<Rightarrow> False | Inr r \<Rightarrow> True))"

text \<open>The specification's canonical unit: one knot is 1852 metres per hour.\<close>

definition knots_to_mps :: "real \<Rightarrow> real" where
  "knots_to_mps k = k * 1852 / 3600"

text \<open>
  A parsed \<open>$GPRMC\<close> sentence with a speed over ground of 10 knots, and a parser that
  accepts one line and raises \<open>ParseError\<close> on every other.
\<close>

definition rmc_10_knots :: nmea_msg where
  "rmc_10_knots =
     \<lparr> msg_latitude = 40.7128, msg_longitude = - 74.0060, msg_altitude = None,
       num_sats = None, gps_qual = None, msg_hdop = None,
       spd_over_grnd = Some 10, is_valid = True \<rparr>"

definition sample_pynmea2 :: pynmea2 where
  "sample_pynmea2 line = (if line = ''$GPRMC,ok'' then Inr rmc_10_knots else Inl ParseError)"

text \<open>
  What a receiver without satellite lock sends: a \<open>$GPGGA\<close> sentence whose latitude
  and longitude fields are empty. For it \<open>pynmea2\<close> returns a message whose
  \<open>latitude\<close> and \<open>longitude\<close> properties read 0.0, with fix quality 0; the parser
  below does so and raises \<open>ParseError\<close> on every other line.
\<close>

definition no_fix_sentence :: string where
  "no_fix_sentence = ''$GPGGA,120000,,,,,0,00,,,,,,,''"

definition unresolved_gga :: nmea_msg where
  "unresolved_gga =
     \<lparr> msg_latitude = 0, msg_longitude = 0, msg_altitude = None,
       num_sats = Some ''00'', gps_qual = Some 0, msg_hdop = None,
       spd_over_grnd = None, is_valid = False \<rparr>"

definition pynmea2_without_fix :: pynmea2 where
  "pynmea2_without_fix line =
     (if line = no_fix_sentence then Inr unresolved_gga else Inl ParseError)"

section \<open>Notions of the claims about the loop\<close>

text \<open>A poll in which \<open>get_gps_location\<close> finds no fix: nothing to read, or nothing decodes.\<close>

definition no_fix :: "pynmea2 \<Rightarrow> nat \<times> string option \<Rightarrow> bool" where
  "no_fix parse inp \<longleftrightarrow>
     (case snd inp of None \<Rightarrow> True | Some raw_data \<Rightarrow> parse_gps_data parse (fst inp) raw_data = None)"

text \<open>
  The last known location, if any, holds both coordinates. It holds at the start and
  every iteration keeps it (\<open>coords_known_initial\<close>, \<open>coords_known_cycle\<close>).
\<close>

definition coords_known :: "tracker \<Rightarrow> bool" where
  "coords_known t \<longleftrightarrow>
     (case current_location t of
        None \<Rightarrow> True
      | Some cur \<Rightarrow> latitude cur \<noteq> None \<and> longitude cur \<noteq> None)"

section \<open>The distance computation\<close>

lemma sin_half_sq: "(sin (x / 2))\<^sup>2 = (1 - cos x) / (2::real)"
  using cos_double_sin [of "x / 2"] by simp

lemma hav_alt:
  "(sin ((b - a) / 2))\<^sup>2 + cos a * cos b * (sin (d / 2))\<^sup>2
     = (1 - (sin a * sin b + cos a * cos b * cos d)) / (2::real)"
  unfolding sin_half_sq cos_diff by (simp add: field_simps)

lemma prod_le_half_squares: "\<bar>x * y\<bar> \<le> (x\<^sup>2 + y\<^sup>2) / (2::real)"
proof -
  have "0 \<le> (\<bar>x\<bar> - \<bar>y\<bar>)\<^sup>2" by simp
  then have "2 * (\<bar>x\<bar> * \<bar>y\<bar>) \<le> x\<^sup>2 + y\<^sup>2"
    by (simp add: power2_diff)
  then show ?thesis by (simp add: abs_mult)
qed

lemma dot_le1: "\<bar>sin a * sin b + cos a * cos b * cos d\<bar> \<le> (1::real)"
proof -
  have "\<bar>sin a * sin b + cos a * cos b * cos d\<bar> \<le> \<bar>sin a * sin b\<bar> + \<bar>cos a * cos b\<bar> * \<bar>cos d\<bar>"
    by (metis abs_mult abs_triangle_ineq)
  also have "\<dots> \<le> \<bar>sin a * sin b\<bar> + \<bar>cos a * cos b\<bar>"
    by (simp add: mult_left_le)
  also have "\<dots> \<le> ((sin a)\<^sup>2 + (sin b)\<^sup>2) / 2 + ((cos a)\<^sup>2 + (cos b)\<^sup>2) / 2"
    by (intro add_mono prod_le_half_squares)
  also have "\<dots> = 1"
    by (simp add: sin_squared_eq add_divide_distrib [symmetric])
  finally show ?thesis .
qed

lemma hav_range:
  fixes a b d :: real
  shows "0 \<le> (sin ((b - a) / 2))\<^sup>2 + cos a * cos b * (sin (d / 2))\<^sup>2"
    and "(sin ((b - a) / 2))\<^sup>2 + cos a * cos b * (sin (d / 2))\<^sup>2 \<le> 1"
  using dot_le1 [of a b d] unfolding hav_alt by (simp_all add: abs_le_iff)

lemma hav_arg_range: "0 \<le> hav_arg a b c d" "sqrt (hav_arg a b c d) \<le> 1" "- 1 \<le> sqrt (hav_arg a b c d)"
proof -
  show 0: "0 \<le> hav_arg a b c d" unfolding hav_arg_def by (rule hav_range)
  have "hav_arg a b c d \<le> 1" unfolding hav_arg_def by (rule hav_range)
  then show 1: "sqrt (hav_arg a b c d) \<le> 1" by simp
  have "0 \<le> sqrt (hav_arg a b c d)" using 0 by simp
  then show "- 1 \<le> sqrt (hav_arg a b c d)" by linarith
qed

lemma haversine_m_hav_arg:
  "haversine_m a b c d = 2 * arcsin (sqrt (hav_arg a b c d)) * 6371000"
  by (simp add: haversine_m_def hav_arg_def radians_def diff_divide_distrib left_diff_distrib)

lemma calculate_distance_haversine:
  "calculate_distance a b c d = Fin (haversine_m a b c d)"
  using hav_arg_range [of a b c d]
  by (simp add: calculate_distance_def Let_def haversine_m_hav_arg hav_arg_def [symmetric] not_less)

lemma abs_sin_small:
  fixes x :: real
  assumes "\<bar>x\<bar> \<le> pi / 2"
  shows "\<bar>sin x\<bar> = sin \<bar>x\<bar>"
proof -
  have p: "0 < pi" by simp
  have "0 \<le> \<bar>x\<bar>" "\<bar>x\<bar> \<le> pi" using assms p by linarith+
  then have "0 \<le> sin \<bar>x\<bar>" by (rule sin_ge_zero)
  moreover have "\<bar>sin x\<bar> = \<bar>sin \<bar>x\<bar>\<bar>" by (cases "0 \<le> x") simp_all
  ultimately show ?thesis by simp
qed

lemma haversine_m_same_meridian:
  assumes "\<bar>c - a\<bar> \<le> 180"
  shows "haversine_m a b c b = \<bar>c - a\<bar> * pi / 180 * 6371000"
proof -
  define x where "x = (c - a) * pi / 180 / 2"
  have ax: "\<bar>x\<bar> = \<bar>c - a\<bar> * pi / 360" by (simp add: x_def abs_mult)
  have "\<bar>c - a\<bar> * pi \<le> 180 * pi" using assms by (intro mult_right_mono) simp_all
  then have b: "\<bar>x\<bar> \<le> pi / 2" unfolding ax by simp
  have "sqrt ((sin x)\<^sup>2) = sin \<bar>x\<bar>" using abs_sin_small [OF b] by simp
  moreover have "arcsin (sin \<bar>x\<bar>) = \<bar>x\<bar>" using b by (intro arcsin_sin) linarith+
  ultimately have "haversine_m a b c b = 2 * 6371000 * \<bar>x\<bar>"
    by (simp add: haversine_m_def x_def)
  then show ?thesis unfolding ax by simp
qed

lemma haversine_m_self: "haversine_m a b a b = 0"
  by (simp add: haversine_m_def)

lemma check_geofence_enabled:
  assumes "geofence_enabled t" "latitude loc = Some la" "longitude loc = Some lo"
  shows "check_geofence loc now t =
           (let d = haversine_m la lo (geofence_lat t) (geofence_lon t) in
            if d > geofence_radius t
            then (False, trigger_alert ''GEOFENCE_BREACH'' (Patient_left_safe_area (Fin d)) la lo now t)
            else (True, t))"
  using assms by (simp add: check_geofence_def calculate_distance_haversine Let_def)

lemma alerts_trigger_alert:
  "\<exists>row. alerts (trigger_alert ty msg la lo now t) = alerts t @ [row] \<and> alert_type row = ty
      \<and> \<not> resolved row \<and> alert_id row = Suc (length (alerts t))"
  by (simp add: trigger_alert_def Let_def)

section \<open>Alerting\<close>

lemma fix_at_simps [simp]: "latitude (fix_at la lo) = Some la" "longitude (fix_at la lo) = Some lo"
  by (simp_all add: fix_at_def)

lemma trigger_alert_config [simp]:
  "geofence_enabled (trigger_alert ty msg la lo now t) = geofence_enabled t"
  "geofence_lat (trigger_alert ty msg la lo now t) = geofence_lat t"
  "geofence_lon (trigger_alert ty msg la lo now t) = geofence_lon t"
  "geofence_radius (trigger_alert ty msg la lo now t) = geofence_radius t"
  "current_location (trigger_alert ty msg la lo now t) = current_location t"
  "update_interval (trigger_alert ty msg la lo now t) = update_interval t"
  by (simp_all add: trigger_alert_def Let_def)

lemma check_geofence_breach:
  assumes "geofence_enabled t" "latitude loc = Some la" "longitude loc = Some lo"
    and "haversine_m la lo (geofence_lat t) (geofence_lon t) > geofence_radius t"
  shows "check_geofence loc now t =
           (False, trigger_alert ''GEOFENCE_BREACH''
              (Patient_left_safe_area (Fin (haversine_m la lo (geofence_lat t) (geofence_lon t))))
              la lo now t)"
  using assms by (simp add: check_geofence_enabled Let_def)

lemma check_geofence_within:
  assumes "fst (check_geofence loc now t)"
  shows "check_geofence loc now t = (True, t)"
  using assms
  by (auto simp: check_geofence_def Let_def split: if_splits option.splits)

lemma one_degree_north: "haversine_m 41.7128 (- 74.0060) 40.7128 (- 74.0060) > 100"
proof -
  have "haversine_m 41.7128 (- 74.0060) 40.7128 (- 74.0060) = \<bar>40.7128 - 41.7128\<bar> * pi / 180 * 6371000"
    by (rule haversine_m_same_meridian) simp
  moreover have "(2::real) \<le> pi" by (rule pi_ge_two)
  ultimately show ?thesis by simp
qed

lemma breach_fix_outside:
  "haversine_m 41.7128 (- 74.0060) (geofence_lat (initial_tracker m)) (geofence_lon (initial_tracker m))
     > geofence_radius (initial_tracker m)"
  using one_degree_north by (simp add: initial_tracker_def)

lemma two_breach_polls:
  assumes "geofence_enabled t"
    and "latitude loc1 = Some la1" "longitude loc1 = Some lo1"
    and "haversine_m la1 lo1 (geofence_lat t) (geofence_lon t) > geofence_radius t"
    and "latitude loc2 = Some la2" "longitude loc2 = Some lo2"
    and "haversine_m la2 lo2 (geofence_lat t) (geofence_lon t) > geofence_radius t"
  shows "\<exists>r1 r2. alerts (snd (check_geofence loc2 nowb (snd (check_geofence loc1 nowa t))))
                    = alerts t @ [r1, r2]
                 \<and> alert_type r1 = ''GEOFENCE_BREACH'' \<and> alert_type r2 = ''GEOFENCE_BREACH''
                 \<and> alert_id r2 = Suc (alert_id r1)"
proof -
  let ?t1 = "snd (check_geofence loc1 nowa t)"
  obtain m1 where t1: "?t1 = trigger_alert ''GEOFENCE_BREACH'' m1 la1 lo1 nowa t"
    using check_geofence_breach [OF assms(1-4)] by simp
  have en: "geofence_enabled ?t1" and far: "haversine_m la2 lo2 (geofence_lat ?t1) (geofence_lon ?t1) > geofence_radius ?t1"
    using assms(1,7) unfolding t1 by simp_all
  obtain m2 where t2: "snd (check_geofence loc2 nowb ?t1) = trigger_alert ''GEOFENCE_BREACH'' m2 la2 lo2 nowb ?t1"
    using check_geofence_breach [OF en assms(5,6) far] by simp
  obtain r1 where r1: "alerts ?t1 = alerts t @ [r1]" "alert_type r1 = ''GEOFENCE_BREACH''" "alert_id r1 = Suc (length (alerts t))"
    using alerts_trigger_alert [of "''GEOFENCE_BREACH''" m1 la1 lo1 nowa t] unfolding t1 by auto
  obtain r2 where r2: "alerts (snd (check_geofence loc2 nowb ?t1)) = alerts ?t1 @ [r2]" "alert_type r2 = ''GEOFENCE_BREACH''"
      "alert_id r2 = Suc (length (alerts ?t1))"
    using alerts_trigger_alert [of "''GEOFENCE_BREACH''" m2 la2 lo2 nowb ?t1] unfolding t2 by auto
  show ?thesis using r1 r2 by simp
qed

lemma initial_tracker_simps [simp]:
  "geofence_enabled (initial_tracker m)" "alerts (initial_tracker m) = []"
  "current_location (initial_tracker m) = None" "update_interval (initial_tracker m) = 10"
  by (simp_all add: initial_tracker_def)

text \<open>
  Claim C1, as the code has it. \<open>check_geofence\<close> keeps no record of a breach already
  reported: every poll whose fix lies outside the enabled fence inserts one more
  \<open>GEOFENCE_BREACH\<close> row, so two consecutive breach polls leave two rows, with
  consecutive ids.
\<close>
theorem C1_every_breach_poll_alerts:
  assumes "geofence_enabled t"
    and "latitude loc1 = Some la1" "longitude loc1 = Some lo1"
    and "haversine_m la1 lo1 (geofence_lat t) (geofence_lon t) > geofence_radius t"
    and "latitude loc2 = Some la2" "longitude loc2 = Some lo2"
    and "haversine_m la2 lo2 (geofence_lat t) (geofence_lon t) > geofence_radius t"
  shows "\<exists>r1 r2. alerts (snd (check_geofence loc2 nowb (snd (check_geofence loc1 nowa t))))
                    = alerts t @ [r1, r2]
                 \<and> alert_type r1 = ''GEOFENCE_BREACH'' \<and> alert_type r2 = ''GEOFENCE_BREACH''
                 \<and> alert_id r2 = Suc (alert_id r1)"
  using assms by (rule two_breach_polls)

text \<open>The theorem at the default configuration, for a fix one degree north of the centre.\<close>

theorem C1_every_breach_poll_alerts_witness:
  "\<exists>r1 r2. alerts (snd (check_geofence (fix_at 41.7128 (- 74.0060)) 2
               (snd (check_geofence (fix_at 41.7128 (- 74.0060)) 1 (initial_tracker None)))))
             = [r1, r2]
          \<and> alert_type r1 = ''GEOFENCE_BREACH'' \<and> alert_type r2 = ''GEOFENCE_BREACH''
          \<and> alert_id r2 = Suc (alert_id r1)"
  using C1_every_breach_poll_alerts [where t = "initial_tracker None" and nowa = 1 and nowb = 2,
          OF initial_tracker_simps(1) fix_at_simps breach_fix_outside
             fix_at_simps breach_fix_outside]
  by simp

text \<open>
  Claim C1 as stated (two consecutive breach reports produce exactly one alert) fails:
  at the default configuration the two polls leave two alert rows.
\<close>

theorem C1_two_breach_polls_two_alerts:
  "length (alerts (snd (check_geofence (fix_at 41.7128 (- 74.0060)) 2
             (snd (check_geofence (fix_at 41.7128 (- 74.0060)) 1 (initial_tracker None)))))) = 2"
  using two_breach_polls [where t = "initial_tracker None" and nowa = 1 and nowb = 2,
          OF initial_tracker_simps(1) fix_at_simps breach_fix_outside
             fix_at_simps breach_fix_outside]
  by auto

section \<open>Exceptions inside the geofence check\<close>

lemma pt_check_geofence_try_coords:
  assumes "latitude loc = Some la" "longitude loc = Some lo"
  shows "pt_check_geofence_try loc now t =
           (if haversine_m la lo (geofence_lat t) (geofence_lon t) > geofence_radius t
            then (Inr False, pt_trigger_alert ''GEOFENCE_BREACH''
                    (Patient_left_safe_area (Fin (haversine_m la lo (geofence_lat t) (geofence_lon t))))
                    la lo now t)
            else (Inr True, t))"
  using assms hav_arg_range [of la lo "geofence_lat t" "geofence_lon t"]
  by (simp add: pt_check_geofence_try_def Let_def hav_arg_def [symmetric] not_less
        haversine_m_hav_arg)

lemma fixed_check_geofence_try_coords:
  assumes "latitude loc = Some la" "longitude loc = Some lo"
  shows "fixed_check_geofence_try loc now t =
           (if haversine_m la lo (geofence_lat t) (geofence_lon t) > geofence_radius t
            then (Inr False, pt_trigger_alert ''GEOFENCE_BREACH''
                    (Patient_left_safe_area (Fin (haversine_m la lo (geofence_lat t) (geofence_lon t))))
                    la lo now t)
            else (Inr True, t))"
  using assms hav_arg_range [of la lo "geofence_lat t" "geofence_lon t"]
  by (simp add: fixed_check_geofence_try_def Let_def hav_arg_def [symmetric] not_less
        haversine_m_hav_arg)

lemma pt_check_geofence_try_raises:
  "(\<exists>e. fst (pt_check_geofence_try loc now t) = Inl e) \<longleftrightarrow> latitude loc = None \<or> longitude loc = None"
proof (cases "latitude loc")
  case None
  then show ?thesis by (simp add: pt_check_geofence_try_def)
next
  case (Some la)
  show ?thesis
  proof (cases "longitude loc")
    case None
    with Some show ?thesis by (simp add: pt_check_geofence_try_def)
  next
    case (Some lo)
    with \<open>latitude loc = Some la\<close> show ?thesis
      by (simp add: pt_check_geofence_try_coords)
  qed
qed

lemma pt_try_raise_keeps_tracker:
  "fst (pt_check_geofence_try loc now t) = Inl e \<Longrightarrow> snd (pt_check_geofence_try loc now t) = t"
  by (auto simp: pt_check_geofence_try_def Let_def split: option.splits if_splits)

lemma fixed_try_raise_keeps_tracker:
  "fst (fixed_check_geofence_try loc now t) = Inl e \<Longrightarrow> snd (fixed_check_geofence_try loc now t) = t"
  by (auto simp: fixed_check_geofence_try_def Let_def split: option.splits if_splits)

lemma pt_fail_open:
  assumes "geofence_enabled t" "fst (pt_check_geofence_try loc now t) = Inl e"
  shows "pt_check_geofence loc now t = (True, t)"
  using assms pt_try_raise_keeps_tracker [OF assms(2)]
  by (cases "pt_check_geofence_try loc now t") (simp add: pt_check_geofence_def)

lemma fixed_fail_open:
  assumes "geofence_enabled t" "fst (fixed_check_geofence_try loc now t) = Inl e"
  shows "fixed_check_geofence loc now t = (True, t)"
  using assms fixed_try_raise_keeps_tracker [OF assms(2)]
  by (cases "fixed_check_geofence_try loc now t") (simp add: fixed_check_geofence_def)

text \<open>
  Claim C10. With the geofence enabled, whenever the \<open>try\<close> block of \<open>check_geofence\<close>
  raises (\<open>patient_tracker.py\<close> and \<open>patient_tracker_fixed.py\<close>), the function
  returns True and leaves the tracker, hence the alerts table, as it was: no breach
  alert is created.
\<close>
theorem C10_geofence_check_fails_open:
  assumes "geofence_enabled t"
  shows "(fst (pt_check_geofence_try loc now t) = Inl e \<longrightarrow>
            pt_check_geofence loc now t = (True, t))
       \<and> (fst (fixed_check_geofence_try loc now t) = Inl e \<longrightarrow>
            fixed_check_geofence loc now t = (True, t))"
  using assms by (simp add: pt_fail_open fixed_fail_open)

text \<open>The theorem at a fix record without a latitude, under the default configuration.\<close>

theorem C10_geofence_check_fails_open_witness:
  "geofence_enabled (initial_tracker None)
   \<and> fst (pt_check_geofence_try fix_without_latitude 0 (initial_tracker None)) = Inl KeyError
   \<and> pt_check_geofence fix_without_latitude 0 (initial_tracker None) = (True, initial_tracker None)
   \<and> fst (fixed_check_geofence_try fix_without_latitude 0 (initial_tracker None)) = Inl KeyError
   \<and> fixed_check_geofence fix_without_latitude 0 (initial_tracker None) = (True, initial_tracker None)"
proof -
  have en: "geofence_enabled (initial_tracker None)" by simp
  have 1: "fst (pt_check_geofence_try fix_without_latitude 0 (initial_tracker None)) = Inl KeyError"
    by (simp add: pt_check_geofence_try_def fix_without_latitude_def)
  have 2: "fst (fixed_check_geofence_try fix_without_latitude 0 (initial_tracker None)) = Inl KeyError"
    by (simp add: fixed_check_geofence_try_def fix_without_latitude_def)
  show ?thesis
    using C10_geofence_check_fails_open [OF en, of fix_without_latitude 0 KeyError] en 1 2
    by simp
qed

section \<open>The disabled geofence\<close>

text \<open>
  Claim C4, as the code has it. With the enabled flag false, \<open>check_geofence\<close> returns
  True at once, in all three files, and leaves the tracker as it was; the result is the
  truth value alone and no distance is computed.
\<close>
theorem C4_disabled_returns_true_only:
  assumes "\<not> geofence_enabled t"
  shows "check_geofence loc now t = (True, t)
       \<and> pt_check_geofence loc now t = (True, t)
       \<and> fixed_check_geofence loc now t = (True, t)"
  using assms by (simp add: check_geofence_def pt_check_geofence_def fixed_check_geofence_def)

text \<open>The theorem at the default configuration with the flag switched off.\<close>

theorem C4_disabled_returns_true_only_witness:
  "\<not> geofence_enabled disabled_tracker
   \<and> check_geofence (fix_at 41.7128 (- 74.0060)) 0 disabled_tracker = (True, disabled_tracker)
   \<and> pt_check_geofence (fix_at 41.7128 (- 74.0060)) 0 disabled_tracker = (True, disabled_tracker)
   \<and> fixed_check_geofence (fix_at 41.7128 (- 74.0060)) 0 disabled_tracker = (True, disabled_tracker)"
proof -
  have d: "\<not> geofence_enabled disabled_tracker" by (simp add: disabled_tracker_def)
  show ?thesis
    using C4_disabled_returns_true_only [OF d, of "fix_at 41.7128 (- 74.0060)" 0] d by simp
qed

text \<open>
  Claim C4 as stated (the evaluation still returns the distance) fails: with the flag
  off, two fixes at different distances from the centre get the same result.
\<close>

theorem C4_result_does_not_carry_distance:
  "check_geofence (fix_at 41.7128 (- 74.0060)) 0 disabled_tracker
     = check_geofence (fix_at 40.7128 (- 74.0060)) 0 disabled_tracker
   \<and> calculate_distance 41.7128 (- 74.0060) (geofence_lat disabled_tracker) (geofence_lon disabled_tracker)
     \<noteq> calculate_distance 40.7128 (- 74.0060) (geofence_lat disabled_tracker) (geofence_lon disabled_tracker)"
proof -
  have "haversine_m 41.7128 (- 74.0060) 40.7128 (- 74.0060) \<noteq> haversine_m 40.7128 (- 74.0060) 40.7128 (- 74.0060)"
    using one_degree_north unfolding haversine_m_self by simp
  then show ?thesis
    by (simp add: check_geofence_def disabled_tracker_def calculate_distance_haversine initial_tracker_def)
qed


section \<open>Distance and fence\<close>

lemma check_geofence_iff_haversine:
  assumes "geofence_enabled t" "latitude loc = Some la" "longitude loc = Some lo"
  shows "fst (check_geofence loc now t)
           = (haversine_m la lo (geofence_lat t) (geofence_lon t) \<le> geofence_radius t)"
  using assms by (simp add: check_geofence_enabled Let_def not_less)

lemma pt_check_geofence_iff_haversine:
  assumes "geofence_enabled t" "latitude loc = Some la" "longitude loc = Some lo"
  shows "fst (pt_check_geofence loc now t)
           = (haversine_m la lo (geofence_lat t) (geofence_lon t) \<le> geofence_radius t)"
  using assms by (simp add: pt_check_geofence_def pt_check_geofence_try_coords not_less)

lemma initial_tracker_fence [simp]:
  "geofence_lat (initial_tracker m) = 40.7128" "geofence_lon (initial_tracker m) = - 74.0060"
  "geofence_radius (initial_tracker m) = 100"
  by (simp_all add: initial_tracker_def)

lemma centre_within:
  "haversine_m 40.7128 (- 74.0060) (geofence_lat (initial_tracker m)) (geofence_lon (initial_tracker m))
     \<le> geofence_radius (initial_tracker m)"
  unfolding initial_tracker_fence haversine_m_self by simp

text \<open>
  Claim C5. \<open>calculate_distance\<close> never takes its exception path on real arguments and
  equals the haversine formula with radius 6 371 000 m; with the geofence enabled,
  \<open>check_geofence\<close> (of \<open>patient_tracker_new.py\<close> and of \<open>patient_tracker.py\<close>) returns
  True exactly when that distance does not exceed the radius; under the default
  configuration (centre 40.7128, -74.0060, radius 100 m) a fix at the centre is within
  the fence and a fix 1000 m away is not.
\<close>
theorem C5_haversine_distance_and_fence:
  assumes "latitude loc = Some la" "longitude loc = Some lo"
  shows "calculate_distance la lo c d = Fin (haversine_m la lo c d)
       \<and> (geofence_enabled t \<longrightarrow>
            fst (check_geofence loc now t)
              = (haversine_m la lo (geofence_lat t) (geofence_lon t) \<le> geofence_radius t)
          \<and> fst (pt_check_geofence loc now t)
              = (haversine_m la lo (geofence_lat t) (geofence_lon t) \<le> geofence_radius t))
       \<and> (la = 40.7128 \<and> lo = - 74.0060 \<longrightarrow>
            fst (check_geofence loc now (initial_tracker m))
          \<and> fst (pt_check_geofence loc now (initial_tracker m)))
       \<and> (haversine_m la lo 40.7128 (- 74.0060) = 1000 \<longrightarrow>
            \<not> fst (check_geofence loc now (initial_tracker m))
          \<and> \<not> fst (pt_check_geofence loc now (initial_tracker m)))"
proof -
  have 1: "calculate_distance la lo c d = Fin (haversine_m la lo c d)"
    by (rule calculate_distance_haversine)
  have 2: "fst (check_geofence loc now t)
             = (haversine_m la lo (geofence_lat t) (geofence_lon t) \<le> geofence_radius t)
         \<and> fst (pt_check_geofence loc now t)
             = (haversine_m la lo (geofence_lat t) (geofence_lon t) \<le> geofence_radius t)"
    if "geofence_enabled t"
    using check_geofence_iff_haversine [OF that assms] pt_check_geofence_iff_haversine [OF that assms]
    by simp
  have en: "geofence_enabled (initial_tracker m)" by simp
  have 3: "fst (check_geofence loc now (initial_tracker m))
         \<and> fst (pt_check_geofence loc now (initial_tracker m))"
    if "la = 40.7128 \<and> lo = - 74.0060"
  proof -
    from that have la: "la = 40.7128" and lo: "lo = - 74.0060" by blast+
    have "haversine_m la lo (geofence_lat (initial_tracker m)) (geofence_lon (initial_tracker m))
            \<le> geofence_radius (initial_tracker m)"
      unfolding la lo by (rule centre_within)
    then show ?thesis
      using check_geofence_iff_haversine [OF en assms, of now]
        pt_check_geofence_iff_haversine [OF en assms, of now]
      by blast
  qed
  have 4: "\<not> fst (check_geofence loc now (initial_tracker m))
         \<and> \<not> fst (pt_check_geofence loc now (initial_tracker m))"
    if "haversine_m la lo 40.7128 (- 74.0060) = 1000"
  proof -
    have "\<not> haversine_m la lo (geofence_lat (initial_tracker m)) (geofence_lon (initial_tracker m))
            \<le> geofence_radius (initial_tracker m)"
      unfolding initial_tracker_fence that by simp
    then show ?thesis
      using check_geofence_iff_haversine [OF en assms, of now]
        pt_check_geofence_iff_haversine [OF en assms, of now]
      by blast
  qed
  show ?thesis using 1 2 3 4 by blast
qed

lemma thousand_metres_north:
  "haversine_m (40.7128 + 180000 / (6371000 * pi)) (- 74.0060) 40.7128 (- 74.0060) = 1000"
proof -
  have p: "0 < pi" by simp
  have b: "180000 / (6371000 * pi) \<le> (180::real)"
  proof -
    have "180000 / (6371000 * pi) \<le> 180000 / (6371000 * 2)"
      using pi_ge_two by (intro divide_left_mono) simp_all
    then show ?thesis by simp
  qed
  have "\<bar>40.7128 - (40.7128 + 180000 / (6371000 * pi))\<bar> = 180000 / (6371000 * pi)"
    by simp
  then have "haversine_m (40.7128 + 180000 / (6371000 * pi)) (- 74.0060) 40.7128 (- 74.0060)
          = 180000 / (6371000 * pi) * pi / 180 * 6371000"
    using haversine_m_same_meridian [of "40.7128" "40.7128 + 180000 / (6371000 * pi)" "- 74.0060"] b
    by simp
  then show ?thesis by simp
qed

text \<open>
  The theorem at the centre itself and at the point 1000 m north of it on the same
  meridian.
\<close>

theorem C5_haversine_distance_and_fence_witness:
  "calculate_distance 40.7128 (- 74.0060) 40.7128 (- 74.0060) = Fin 0
   \<and> fst (check_geofence (fix_at 40.7128 (- 74.0060)) 0 (initial_tracker None))
   \<and> fst (pt_check_geofence (fix_at 40.7128 (- 74.0060)) 0 (initial_tracker None))
   \<and> haversine_m (40.7128 + 180000 / (6371000 * pi)) (- 74.0060) 40.7128 (- 74.0060) = 1000
   \<and> \<not> fst (check_geofence (fix_at (40.7128 + 180000 / (6371000 * pi)) (- 74.0060)) 0 (initial_tracker None))
   \<and> \<not> fst (pt_check_geofence (fix_at (40.7128 + 180000 / (6371000 * pi)) (- 74.0060)) 0 (initial_tracker None))"
proof -
  note c = C5_haversine_distance_and_fence [where la = "40.7128" and lo = "- 74.0060"
              and loc = "fix_at 40.7128 (- 74.0060)" and c = "40.7128" and d = "- 74.0060"
              and now = 0 and m = None, OF fix_at_simps]
  note f = C5_haversine_distance_and_fence [where la = "40.7128 + 180000 / (6371000 * pi)"
              and lo = "- 74.0060"
              and loc = "fix_at (40.7128 + 180000 / (6371000 * pi)) (- 74.0060)"
              and now = 0 and m = None, OF fix_at_simps]
  have 1: "calculate_distance 40.7128 (- 74.0060) 40.7128 (- 74.0060) = Fin 0"
    using c haversine_m_self [of "40.7128" "- 74.0060"] by metis
  have 2: "fst (check_geofence (fix_at 40.7128 (- 74.0060)) 0 (initial_tracker None))
         \<and> fst (pt_check_geofence (fix_at 40.7128 (- 74.0060)) 0 (initial_tracker None))"
    using c by blast
  have 3: "\<not> fst (check_geofence (fix_at (40.7128 + 180000 / (6371000 * pi)) (- 74.0060)) 0 (initial_tracker None))
         \<and> \<not> fst (pt_check_geofence (fix_at (40.7128 + 180000 / (6371000 * pi)) (- 74.0060)) 0 (initial_tracker None))"
    using f thousand_metres_north by blast
  show ?thesis using 1 2 3 thousand_metres_north by blast
qed

section \<open>Resolving\<close>

lemma mark_alert_resolved_nth:
  assumes "k < length rows"
  shows "resolved (mark_alert_resolved (Some i) rows ! k) = (resolved (rows ! k) \<or> alert_id (rows ! k) = i)"
  using assms by (simp add: mark_alert_resolved_def)

lemma mark_alert_resolved_row:
  assumes "k < length rows"
  shows "mark_alert_resolved (Some i) rows ! k
           = (if alert_id (rows ! k) = i then (rows ! k) \<lparr> resolved := True \<rparr> else rows ! k)"
  using assms by (simp add: mark_alert_resolved_def)

text \<open>
  Claim C3, as the code has it. A poll that \<open>check_geofence\<close> finds within the fence
  leaves the tracker, hence every alert row, unchanged. A row becomes resolved only
  through \<open>mark_alert_resolved\<close>, which turns each row with the requested id into the
  same row with the flag set, leaves every other row as it was, and changes nothing
  when the request has no id.
\<close>
theorem C3_only_explicit_resolve:
  "(fst (check_geofence loc now t) \<longrightarrow> snd (check_geofence loc now t) = t)
   \<and> length (mark_alert_resolved (Some i) rows) = length rows
   \<and> (\<forall>k < length rows.
        resolved (mark_alert_resolved (Some i) rows ! k)
          = (resolved (rows ! k) \<or> alert_id (rows ! k) = i))
   \<and> (\<forall>k < length rows.
        mark_alert_resolved (Some i) rows ! k
          = (if alert_id (rows ! k) = i then (rows ! k) \<lparr> resolved := True \<rparr> else rows ! k))
   \<and> mark_alert_resolved None rows = rows"
proof -
  have 1: "fst (check_geofence loc now t) \<longrightarrow> snd (check_geofence loc now t) = t"
    using check_geofence_within [of loc now t] by auto
  have 2: "length (mark_alert_resolved (Some i) rows) = length rows"
    and 3: "mark_alert_resolved None rows = rows"
    by (simp_all add: mark_alert_resolved_def)
  show ?thesis using 1 2 3 by (simp add: mark_alert_resolved_nth mark_alert_resolved_row)
qed

lemma centre_poll_after_breach:
  "fst (check_geofence (fix_at 40.7128 (- 74.0060)) 2
          (snd (check_geofence (fix_at 41.7128 (- 74.0060)) 1 (initial_tracker None))))
   \<and> map resolved (alerts (snd (check_geofence (fix_at 40.7128 (- 74.0060)) 2
          (snd (check_geofence (fix_at 41.7128 (- 74.0060)) 1 (initial_tracker None))))))
       = [False]"
proof -
  let ?t1 = "snd (check_geofence (fix_at 41.7128 (- 74.0060)) 1 (initial_tracker None))"
  have t1: "?t1 = trigger_alert ''GEOFENCE_BREACH''
              (Patient_left_safe_area (Fin (haversine_m 41.7128 (- 74.0060)
                 (geofence_lat (initial_tracker None)) (geofence_lon (initial_tracker None)))))
              41.7128 (- 74.0060) 1 (initial_tracker None)"
    using check_geofence_breach [where t = "initial_tracker None" and now = 1,
            OF initial_tracker_simps(1) fix_at_simps breach_fix_outside]
    by simp
  have en: "geofence_enabled ?t1" unfolding t1 by simp
  have "haversine_m 40.7128 (- 74.0060) (geofence_lat ?t1) (geofence_lon ?t1) \<le> geofence_radius ?t1"
    unfolding t1 trigger_alert_config by (rule centre_within)
  then have w: "fst (check_geofence (fix_at 40.7128 (- 74.0060)) 2 ?t1)"
    using check_geofence_iff_haversine [OF en fix_at_simps, of "40.7128" "- 74.0060" 2] by blast
  then have same: "snd (check_geofence (fix_at 40.7128 (- 74.0060)) 2 ?t1) = ?t1"
    using check_geofence_within by fastforce
  have "map resolved (alerts ?t1) = [False]"
    unfolding t1 by (simp add: trigger_alert_def Let_def)
  with w same show ?thesis by simp
qed

lemma alerts_after_breach:
  "length (alerts (snd (check_geofence (fix_at 41.7128 (- 74.0060)) 1 (initial_tracker None)))) = 1
   \<and> alert_id (alerts (snd (check_geofence (fix_at 41.7128 (- 74.0060)) 1 (initial_tracker None))) ! 0) = 1
   \<and> \<not> resolved (alerts (snd (check_geofence (fix_at 41.7128 (- 74.0060)) 1 (initial_tracker None))) ! 0)"
proof -
  let ?t1 = "snd (check_geofence (fix_at 41.7128 (- 74.0060)) 1 (initial_tracker None))"
  have t1: "?t1 = trigger_alert ''GEOFENCE_BREACH''
              (Patient_left_safe_area (Fin (haversine_m 41.7128 (- 74.0060)
                 (geofence_lat (initial_tracker None)) (geofence_lon (initial_tracker None)))))
              41.7128 (- 74.0060) 1 (initial_tracker None)"
    using check_geofence_breach [where t = "initial_tracker None" and now = 1,
            OF initial_tracker_simps(1) fix_at_simps breach_fix_outside]
    by simp
  show ?thesis unfolding t1 by (simp add: trigger_alert_def Let_def)
qed

text \<open>
  The theorem at a poll at the centre that follows a breach poll, and at requests to
  resolve the id of the alert row and another id.
\<close>

theorem C3_only_explicit_resolve_witness:
  "fst (check_geofence (fix_at 40.7128 (- 74.0060)) 2
          (snd (check_geofence (fix_at 41.7128 (- 74.0060)) 1 (initial_tracker None))))
   \<and> snd (check_geofence (fix_at 40.7128 (- 74.0060)) 2
          (snd (check_geofence (fix_at 41.7128 (- 74.0060)) 1 (initial_tracker None))))
       = snd (check_geofence (fix_at 41.7128 (- 74.0060)) 1 (initial_tracker None))
   \<and> mark_alert_resolved (Some 2)
        (alerts (snd (check_geofence (fix_at 41.7128 (- 74.0060)) 1 (initial_tracker None)))) ! 0
       = alerts (snd (check_geofence (fix_at 41.7128 (- 74.0060)) 1 (initial_tracker None))) ! 0
   \<and> mark_alert_resolved (Some 1)
        (alerts (snd (check_geofence (fix_at 41.7128 (- 74.0060)) 1 (initial_tracker None)))) ! 0
       = (alerts (snd (check_geofence (fix_at 41.7128 (- 74.0060)) 1 (initial_tracker None))) ! 0)
           \<lparr> resolved := True \<rparr>"
proof -
  let ?t1 = "snd (check_geofence (fix_at 41.7128 (- 74.0060)) 1 (initial_tracker None))"
  note a = C3_only_explicit_resolve [where loc = "fix_at 40.7128 (- 74.0060)" and now = 2
             and t = ?t1 and rows = "alerts ?t1" and i = 2]
  note b = C3_only_explicit_resolve [where loc = "fix_at 40.7128 (- 74.0060)" and now = 2
             and t = ?t1 and rows = "alerts ?t1" and i = 1]
  have k: "0 < length (alerts ?t1)" and id: "alert_id (alerts ?t1 ! 0) = 1"
    using alerts_after_breach by simp_all
  have 1: "fst (check_geofence (fix_at 40.7128 (- 74.0060)) 2 ?t1)"
    using centre_poll_after_breach by blast
  have 2: "snd (check_geofence (fix_at 40.7128 (- 74.0060)) 2 ?t1) = ?t1"
    using a 1 by blast
  have 3: "mark_alert_resolved (Some 2) (alerts ?t1) ! 0 = alerts ?t1 ! 0"
    using a k id by simp
  have 4: "mark_alert_resolved (Some 1) (alerts ?t1) ! 0 = (alerts ?t1 ! 0) \<lparr> resolved := True \<rparr>"
    using b k id by simp
  show ?thesis using 1 2 3 4 by blast
qed


text \<open>
  Claim C3 as stated (the open alert is marked resolved when the condition clears)
  fails: after a breach poll and a poll back at the centre, the one alert row is still
  unresolved.
\<close>

theorem C3_alert_stays_open_after_clear:
  "fst (check_geofence (fix_at 40.7128 (- 74.0060)) 2
          (snd (check_geofence (fix_at 41.7128 (- 74.0060)) 1 (initial_tracker None))))
   \<and> map resolved (alerts (snd (check_geofence (fix_at 40.7128 (- 74.0060)) 2
          (snd (check_geofence (fix_at 41.7128 (- 74.0060)) 1 (initial_tracker None))))))
       = [False]"
  by (rule centre_poll_after_breach)

section \<open>Decoding: the loops\<close>

lemma split_on_not_Nil [simp]: "split_on c s \<noteq> []"
  by (induction s) (auto split: list.splits)

lemma split_on_append:
  "c \<notin> set l \<Longrightarrow> split_on c (l @ c # rest) = l # split_on c rest"
  by (induction l) (auto split: list.splits)

lemma startswith_dollar:
  "recognized line \<Longrightarrow> startswith line ''$'' \<and> line \<noteq> []"
  by (cases line) (auto simp: recognized_def startswith_def)

lemma rmc_not_gga: "startswith line ''$GPRMC'' \<Longrightarrow> \<not> startswith line ''$GPGGA''"
  by (auto simp: startswith_def)

text \<open>What one step of the loop does with a recognised line.\<close>

lemma scan_lines_gga:
  assumes "startswith (strip l) ''$GPGGA''"
  shows "scan_lines parse now (l # ls) =
           (case parse (strip l) of
              Inl ParseError \<Rightarrow> scan_lines parse now ls
            | Inl e \<Rightarrow> Inl e
            | Inr msg \<Rightarrow> Inr (Some (gga_location msg now)))"
  using assms startswith_dollar [of "strip l"]
  by (simp add: recognized_def Let_def)

lemma scan_lines_rmc:
  assumes "startswith (strip l) ''$GPRMC''"
  shows "scan_lines parse now (l # ls) =
           (case parse (strip l) of
              Inl ParseError \<Rightarrow> scan_lines parse now ls
            | Inl e \<Rightarrow> Inl e
            | Inr msg \<Rightarrow> Inr (Some (rmc_location msg now)))"
  using assms startswith_dollar [of "strip l"] rmc_not_gga [OF assms]
  by (simp add: recognized_def Let_def)

lemma scan_lines_other:
  assumes "\<not> recognized (strip l)"
  shows "scan_lines parse now (l # ls) = scan_lines parse now ls"
  using assms by (simp add: recognized_def Let_def)

declare scan_lines.simps(2) [simp del]

section \<open>Decoding never raises\<close>



lemma nmea_lines_no_decode:
  assumes "\<forall>l\<in>set ls. \<not> nmea_line_decodes float_of l"
  shows "nmea_lines float_of now ls = Inr None \<or> (\<exists>e. nmea_lines float_of now ls = Inl e)"
  using assms
proof (induction ls)
  case Nil
  then show ?case by simp
next
  case (Cons l ls)
  then have ih: "nmea_lines float_of now ls = Inr None \<or> (\<exists>e. nmea_lines float_of now ls = Inl e)"
    and nd: "\<not> nmea_line_decodes float_of l"
    by simp_all
  show ?case
    using ih nd
    by (auto simp: nmea_line_decodes_def Let_def split: sum.splits)
qed

lemma parse_nmea_no_decode:
  assumes "\<forall>l\<in>set (split_on CHR 0x0A data). \<not> nmea_line_decodes float_of l"
  shows "parse_nmea float_of now data = None"
  using nmea_lines_no_decode [OF assms, of now] by (auto simp: parse_nmea_def)




section \<open>A corrupt sentence before a valid one\<close>

declare pt_scan_lines.simps(2) [simp del]
declare nmea_lines.simps(2) [simp del]

lemma pt_scan_lines_recognized:
  assumes "recognized line" "parse line = Inl e"
  shows "pt_scan_lines parse now (line # ls) = Inl e"
  using assms by (auto simp: recognized_def pt_scan_lines.simps(2))

lemma pt_corrupt_line_aborts:
  assumes "CHR 0x0A \<notin> set corrupt" "recognized corrupt" "parse corrupt = Inl e"
  shows "pt_parse_gps_data parse now (corrupt @ CHR 0x0A # rest) = None"
  using assms
  by (simp add: pt_parse_gps_data_def split_on_append pt_scan_lines_recognized)

lemma parse_gps_data_skips_parse_error:
  assumes "CHR 0x0A \<notin> set corrupt" "recognized (strip corrupt)"
    and "parse (strip corrupt) = Inl ParseError"
  shows "parse_gps_data parse now (corrupt @ CHR 0x0A # rest) = parse_gps_data parse now rest"
  using assms
  by (auto simp: parse_gps_data_def split_on_append recognized_def scan_lines_gga scan_lines_rmc)

lemma strip_samples:
  "strip ''$GPGGA,bad*00'' = ''$GPGGA,bad*00''" "strip ''$GPRMC,ok'' = ''$GPRMC,ok''"
  by (simp_all add: strip_def py_isspace_def)

lemma new_decodes_sample:
  "parse_gps_data sample_pynmea2 0 ''$GPRMC,ok'' = Some (rmc_location rmc_10_knots 0)"
  by (simp add: parse_gps_data_def scan_lines_rmc strip_samples startswith_def sample_pynmea2_def)

text \<open>
  Claim C6 against \<open>patient_tracker.py\<close>, whose loop has no inner handler: a recognised
  line on which the parser raises \<open>ParseError\<close> ends the whole decode with None,
  whatever follows it. (\<open>patient_tracker_new.py\<close> skips such a line:
  \<open>parse_gps_data_skips_parse_error\<close>.)
\<close>
theorem C6_pt_corrupt_line_aborts_batch:
  assumes "CHR 0x0A \<notin> set corrupt" "recognized corrupt" "parse corrupt = Inl ParseError"
  shows "pt_parse_gps_data parse now (corrupt @ CHR 0x0A # rest) = None"
  using assms by (rule pt_corrupt_line_aborts)

text \<open>
  The theorem at a batch of a corrupt line and a valid one: \<open>patient_tracker.py\<close>
  returns None although it decodes the valid line alone, and
  \<open>patient_tracker_new.py\<close> returns the fix of the valid line.
\<close>

theorem C6_pt_corrupt_line_aborts_batch_witness:
  "pt_parse_gps_data sample_pynmea2 0 (''$GPGGA,bad*00'' @ CHR 0x0A # ''$GPRMC,ok'') = None
   \<and> pt_parse_gps_data sample_pynmea2 0 ''$GPRMC,ok'' = Some (pt_rmc_location rmc_10_knots 0)
   \<and> parse_gps_data sample_pynmea2 0 (''$GPGGA,bad*00'' @ CHR 0x0A # ''$GPRMC,ok'')
       = Some (rmc_location rmc_10_knots 0)"
proof -
  have 1: "pt_parse_gps_data sample_pynmea2 0 (''$GPGGA,bad*00'' @ CHR 0x0A # ''$GPRMC,ok'') = None"
    by (rule C6_pt_corrupt_line_aborts_batch)
       (simp_all add: recognized_def startswith_def sample_pynmea2_def)
  have 2: "pt_parse_gps_data sample_pynmea2 0 ''$GPRMC,ok'' = Some (pt_rmc_location rmc_10_knots 0)"
    by (simp add: pt_parse_gps_data_def pt_scan_lines.simps(2) startswith_def sample_pynmea2_def)
  have "parse_gps_data sample_pynmea2 0 (''$GPGGA,bad*00'' @ CHR 0x0A # ''$GPRMC,ok'')
          = parse_gps_data sample_pynmea2 0 ''$GPRMC,ok''"
    by (rule parse_gps_data_skips_parse_error)
       (simp_all add: strip_samples recognized_def startswith_def sample_pynmea2_def)
  then have 3: "parse_gps_data sample_pynmea2 0 (''$GPGGA,bad*00'' @ CHR 0x0A # ''$GPRMC,ok'')
          = Some (rmc_location rmc_10_knots 0)"
    by (simp only: new_decodes_sample)
  show ?thesis using 1 2 3 by blast
qed

section \<open>The unit of the speed\<close>

lemma scan_lines_SomeD:
  assumes "scan_lines parse now ls = Inr (Some loc)"
  shows "\<exists>l\<in>set ls. \<exists>msg. parse (strip l) = Inr msg \<and>
           (if startswith (strip l) ''$GPGGA'' then loc = gga_location msg now
            else startswith (strip l) ''$GPRMC'' \<and> loc = rmc_location msg now)"
proof -
  define P where "P = (\<lambda>l. \<exists>msg. parse (strip l) = Inr msg \<and>
           (if startswith (strip l) ''$GPGGA'' then loc = gga_location msg now
            else startswith (strip l) ''$GPRMC'' \<and> loc = rmc_location msg now))"
  have "\<exists>l\<in>set ls. P l" using assms
  proof (induction ls)
    case Nil
    then show ?case by simp
  next
    case (Cons l ls)
    have "P l \<or> scan_lines parse now ls = Inr (Some loc)"
    proof (cases "startswith (strip l) ''$GPGGA''")
      case True
      then show ?thesis
        using Cons.prems unfolding P_def
        by (auto simp: scan_lines_gga split: sum.splits py_exception.splits)
    next
      case False
      show ?thesis
      proof (cases "startswith (strip l) ''$GPRMC''")
        case True
        then show ?thesis
          using Cons.prems False unfolding P_def
          by (auto simp: scan_lines_rmc split: sum.splits py_exception.splits)
      next
        case nr: False
        with False have "\<not> recognized (strip l)" by (simp add: recognized_def)
        then show ?thesis using Cons.prems by (simp add: scan_lines_other)
      qed
    qed
    then show ?case using Cons.IH by auto
  qed
  then show ?thesis unfolding P_def .
qed

lemma pt_scan_lines_SomeD:
  assumes "pt_scan_lines parse now ls = Inr (Some loc)"
  shows "\<exists>l\<in>set ls. \<exists>msg. parse l = Inr msg \<and>
           (if startswith l ''$GPGGA'' then loc = pt_gga_location msg now
            else startswith l ''$GPRMC'' \<and> loc = pt_rmc_location msg now)"
  using assms
proof (induction ls)
  case Nil
  then show ?case by simp
next
  case (Cons l ls)
  then show ?case
    by (auto simp: pt_scan_lines.simps(2) split: sum.splits if_splits)
qed

lemma rmc_speed_kmh: "rmc_speed spd = (case spd of None \<Rightarrow> 0 | Some k \<Rightarrow> k * 1.852)"
  by (simp add: rmc_speed_def split: option.splits)

text \<open>
  Claim C7, as the code has it. A fix returned by \<open>parse_gps_data\<close> comes from one line
  of the input that parsed; from a \<open>$GPGGA\<close> line it has no speed, from a \<open>$GPRMC\<close>
  line its speed is the speed over ground times 1.852 (knots to km/h; 0 when absent)
  in \<open>patient_tracker_new.py\<close>, and the speed over ground as parsed (knots) in
  \<open>patient_tracker.py\<close>.
\<close>
theorem C7_speed_is_kmh_or_knots:
  "(parse_gps_data parse now raw = Some loc \<longrightarrow>
      (\<exists>l\<in>set (split_on CHR 0x0A raw). \<exists>msg. parse (strip l) = Inr msg \<and>
         (if startswith (strip l) ''$GPGGA'' then speed loc = None
          else startswith (strip l) ''$GPRMC'' \<and>
               speed loc = Some (case spd_over_grnd msg of None \<Rightarrow> 0 | Some k \<Rightarrow> k * 1.852))))
   \<and> (pt_parse_gps_data parse now raw = Some loc' \<longrightarrow>
      (\<exists>l\<in>set (split_on CHR 0x0A raw). \<exists>msg. parse l = Inr msg \<and>
         (if startswith l ''$GPGGA'' then speed loc' = None
          else startswith l ''$GPRMC'' \<and> speed loc' = spd_over_grnd msg)))"
proof -
  have 1: "\<exists>l\<in>set (split_on CHR 0x0A raw). \<exists>msg. parse (strip l) = Inr msg \<and>
         (if startswith (strip l) ''$GPGGA'' then speed loc = None
          else startswith (strip l) ''$GPRMC'' \<and>
               speed loc = Some (case spd_over_grnd msg of None \<Rightarrow> 0 | Some k \<Rightarrow> k * 1.852))"
    if "parse_gps_data parse now raw = Some loc"
  proof -
    from that have "scan_lines parse now (split_on CHR 0x0A raw) = Inr (Some loc)"
      by (simp add: parse_gps_data_def split: sum.splits)
    from scan_lines_SomeD [OF this] obtain l msg where
      l: "l \<in> set (split_on CHR 0x0A raw)" "parse (strip l) = Inr msg"
        "if startswith (strip l) ''$GPGGA'' then loc = gga_location msg now
         else startswith (strip l) ''$GPRMC'' \<and> loc = rmc_location msg now"
      by blast
    from l(3) have "if startswith (strip l) ''$GPGGA'' then speed loc = None
          else startswith (strip l) ''$GPRMC'' \<and>
               speed loc = Some (case spd_over_grnd msg of None \<Rightarrow> 0 | Some k \<Rightarrow> k * 1.852)"
      by (auto simp: gga_location_def rmc_location_def rmc_speed_kmh split: if_splits)
    with l(1,2) show ?thesis by blast
  qed
  have 2: "\<exists>l\<in>set (split_on CHR 0x0A raw). \<exists>msg. parse l = Inr msg \<and>
         (if startswith l ''$GPGGA'' then speed loc' = None
          else startswith l ''$GPRMC'' \<and> speed loc' = spd_over_grnd msg)"
    if "pt_parse_gps_data parse now raw = Some loc'"
  proof -
    from that have "pt_scan_lines parse now (split_on CHR 0x0A raw) = Inr (Some loc')"
      by (simp add: pt_parse_gps_data_def split: sum.splits)
    from pt_scan_lines_SomeD [OF this] obtain l msg where
      l: "l \<in> set (split_on CHR 0x0A raw)" "parse l = Inr msg"
        "if startswith l ''$GPGGA'' then loc' = pt_gga_location msg now
         else startswith l ''$GPRMC'' \<and> loc' = pt_rmc_location msg now"
      by blast
    from l(3) have "if startswith l ''$GPGGA'' then speed loc' = None
          else startswith l ''$GPRMC'' \<and> speed loc' = spd_over_grnd msg"
      by (auto simp: pt_gga_location_def pt_rmc_location_def split: if_splits)
    with l(1,2) show ?thesis by blast
  qed
  show ?thesis using 1 2 by blast
qed


lemma pt_decodes_sample:
  "pt_parse_gps_data sample_pynmea2 0 ''$GPRMC,ok'' = Some (pt_rmc_location rmc_10_knots 0)"
  by (simp add: pt_parse_gps_data_def pt_scan_lines.simps(2) startswith_def sample_pynmea2_def)

text \<open>The theorem at a one-line batch with a speed of 10 knots.\<close>

theorem C7_speed_is_kmh_or_knots_witness:
  "(\<exists>l\<in>set (split_on CHR 0x0A ''$GPRMC,ok''). \<exists>msg. sample_pynmea2 (strip l) = Inr msg \<and>
         (if startswith (strip l) ''$GPGGA'' then speed (rmc_location rmc_10_knots 0) = None
          else startswith (strip l) ''$GPRMC'' \<and>
               speed (rmc_location rmc_10_knots 0)
                 = Some (case spd_over_grnd msg of None \<Rightarrow> 0 | Some k \<Rightarrow> k * 1.852)))
   \<and> (\<exists>l\<in>set (split_on CHR 0x0A ''$GPRMC,ok''). \<exists>msg. sample_pynmea2 l = Inr msg \<and>
         (if startswith l ''$GPGGA'' then speed (pt_rmc_location rmc_10_knots 0) = None
          else startswith l ''$GPRMC'' \<and>
               speed (pt_rmc_location rmc_10_knots 0) = spd_over_grnd msg))"
  using C7_speed_is_kmh_or_knots [where parse = sample_pynmea2 and now = 0
          and raw = "''$GPRMC,ok''" and loc = "rmc_location rmc_10_knots 0"
          and loc' = "pt_rmc_location rmc_10_knots 0"]
        new_decodes_sample pt_decodes_sample
  by blast

text \<open>
  Claim C7 as stated (the speed of the Fix is in metres per second) fails: for a speed
  over ground of 10 knots the two decoders store 18.52 and 10, neither of which is
  10 knots in m/s.
\<close>

theorem C7_speed_not_metres_per_second:
  "map_option speed (parse_gps_data sample_pynmea2 0 ''$GPRMC,ok'') = Some (Some 18.52)
   \<and> map_option speed (pt_parse_gps_data sample_pynmea2 0 ''$GPRMC,ok'') = Some (Some 10)
   \<and> spd_over_grnd rmc_10_knots = Some 10
   \<and> knots_to_mps 10 \<noteq> 18.52 \<and> knots_to_mps 10 \<noteq> 10"
  unfolding new_decodes_sample pt_decodes_sample
  by (simp add: rmc_location_def pt_rmc_location_def rmc_speed_def rmc_10_knots_def knots_to_mps_def)

section \<open>The coordinates of a fix\<close>

lemma gga_fields_InrD:
  assumes "gga_fields float_of parts = Inr (la, lo)"
  shows "\<exists>d m d' m'.
           float_of (take 2 (parts ! 2)) = Some d \<and> float_of (drop 2 (parts ! 2)) = Some m
         \<and> float_of (take 3 (parts ! 4)) = Some d' \<and> float_of (drop 3 (parts ! 4)) = Some m'
         \<and> la = (if parts ! 3 = ''S'' then - (d + m / 60) else d + m / 60)
         \<and> lo = (if parts ! 5 = ''W'' then - (d' + m' / 60) else d' + m' / 60)"
  using assms
  by (auto simp: gga_fields_def Let_def split: option.splits)

lemma nmea_lines_SomeD:
  assumes "nmea_lines float_of now ls = Inr (Some fx)"
  shows "\<exists>l\<in>set ls. startswith l ''$GPGGA'' \<and> 5 < length (split_on CHR '','' l)
           \<and> split_on CHR '','' l ! 2 \<noteq> [] \<and> split_on CHR '','' l ! 4 \<noteq> []
           \<and> gga_fields float_of (split_on CHR '','' l) = Inr (lat fx, lon fx)"
proof -
  define P where "P = (\<lambda>l. startswith l ''$GPGGA'' \<and> 5 < length (split_on CHR '','' l)
           \<and> split_on CHR '','' l ! 2 \<noteq> [] \<and> split_on CHR '','' l ! 4 \<noteq> []
           \<and> gga_fields float_of (split_on CHR '','' l) = Inr (lat fx, lon fx))"
  have "\<exists>l\<in>set ls. P l" using assms
  proof (induction ls)
    case Nil
    then show ?case by simp
  next
    case (Cons l ls)
    have "P l \<or> nmea_lines float_of now ls = Inr (Some fx)"
      using Cons.prems unfolding P_def
      by (auto simp: nmea_lines.simps(2) Let_def split: if_splits sum.splits)
    then show ?case using Cons.IH by auto
  qed
  then show ?thesis unfolding P_def .
qed

lemma parse_nmea_unresolved_fields:
  assumes "\<forall>l\<in>set (split_on CHR 0x0A data). startswith l ''$GPGGA'' \<longrightarrow>
             \<not> 5 < length (split_on CHR '','' l)
             \<or> split_on CHR '','' l ! 2 = [] \<or> split_on CHR '','' l ! 4 = []"
  shows "parse_nmea float_of now data = None"
proof (rule parse_nmea_no_decode)
  show "\<forall>l\<in>set (split_on CHR 0x0A data). \<not> nmea_line_decodes float_of l"
    using assms by (auto simp: nmea_line_decodes_def Let_def)
qed

text \<open>
  Claim C8, as the code has it. No decoder checks a range: \<open>parse_nmea\<close> returns the
  latitude as degrees (two characters) plus minutes over 60, negated for \<open>S\<close>, and the
  longitude likewise (three characters, \<open>W\<close>), and \<open>parse_gps_data\<close> copies the
  latitude and longitude of the parsed sentence into the fix. \<open>parse_nmea\<close> builds a
  fix only from a \<open>$GPGGA\<close> line with more than five fields whose latitude and
  longitude fields are both non-empty and numeric; when every \<open>$GPGGA\<close> line lacks a
  coordinate field, it returns no fix.
\<close>
theorem C8_coordinates_as_decoded:
  "(parse_nmea float_of now data = Some fx \<longrightarrow>
      (\<exists>l\<in>set (split_on CHR 0x0A data). \<exists>d m d' m'.
          startswith l ''$GPGGA'' \<and> 5 < length (split_on CHR '','' l)
        \<and> split_on CHR '','' l ! 2 \<noteq> [] \<and> split_on CHR '','' l ! 4 \<noteq> []
        \<and> float_of (take 2 (split_on CHR '','' l ! 2)) = Some d
        \<and> float_of (drop 2 (split_on CHR '','' l ! 2)) = Some m
        \<and> float_of (take 3 (split_on CHR '','' l ! 4)) = Some d'
        \<and> float_of (drop 3 (split_on CHR '','' l ! 4)) = Some m'
        \<and> lat fx = (if split_on CHR '','' l ! 3 = ''S'' then - (d + m / 60) else d + m / 60)
        \<and> lon fx = (if split_on CHR '','' l ! 5 = ''W'' then - (d' + m' / 60) else d' + m' / 60)))
   \<and> ((\<forall>l\<in>set (split_on CHR 0x0A data). startswith l ''$GPGGA'' \<longrightarrow>
          \<not> 5 < length (split_on CHR '','' l)
          \<or> split_on CHR '','' l ! 2 = [] \<or> split_on CHR '','' l ! 4 = [])
      \<longrightarrow> parse_nmea float_of now data = None)
   \<and> (parse_gps_data parse now raw = Some loc \<longrightarrow>
      (\<exists>l\<in>set (split_on CHR 0x0A raw). \<exists>msg. parse (strip l) = Inr msg
        \<and> latitude loc = Some (msg_latitude msg) \<and> longitude loc = Some (msg_longitude msg)))"
proof -
  have 1: "\<exists>l\<in>set (split_on CHR 0x0A data). \<exists>d m d' m'.
          startswith l ''$GPGGA'' \<and> 5 < length (split_on CHR '','' l)
        \<and> split_on CHR '','' l ! 2 \<noteq> [] \<and> split_on CHR '','' l ! 4 \<noteq> []
        \<and> float_of (take 2 (split_on CHR '','' l ! 2)) = Some d
        \<and> float_of (drop 2 (split_on CHR '','' l ! 2)) = Some m
        \<and> float_of (take 3 (split_on CHR '','' l ! 4)) = Some d'
        \<and> float_of (drop 3 (split_on CHR '','' l ! 4)) = Some m'
        \<and> lat fx = (if split_on CHR '','' l ! 3 = ''S'' then - (d + m / 60) else d + m / 60)
        \<and> lon fx = (if split_on CHR '','' l ! 5 = ''W'' then - (d' + m' / 60) else d' + m' / 60)"
    if "parse_nmea float_of now data = Some fx"
  proof -
    from that have "nmea_lines float_of now (split_on CHR 0x0A data) = Inr (Some fx)"
      by (simp add: parse_nmea_def split: sum.splits)
    from nmea_lines_SomeD [OF this] obtain l where
      l: "l \<in> set (split_on CHR 0x0A data)" "startswith l ''$GPGGA''"
         "5 < length (split_on CHR '','' l)"
         "split_on CHR '','' l ! 2 \<noteq> []" "split_on CHR '','' l ! 4 \<noteq> []"
         "gga_fields float_of (split_on CHR '','' l) = Inr (lat fx, lon fx)"
      by blast
    from gga_fields_InrD [OF l(6)] l(1-5) show ?thesis by blast
  qed
  have 2: "parse_nmea float_of now data = None"
    if "\<forall>l\<in>set (split_on CHR 0x0A data). startswith l ''$GPGGA'' \<longrightarrow>
          \<not> 5 < length (split_on CHR '','' l)
          \<or> split_on CHR '','' l ! 2 = [] \<or> split_on CHR '','' l ! 4 = []"
    using that by (rule parse_nmea_unresolved_fields)
  have 3: "\<exists>l\<in>set (split_on CHR 0x0A raw). \<exists>msg. parse (strip l) = Inr msg
        \<and> latitude loc = Some (msg_latitude msg) \<and> longitude loc = Some (msg_longitude msg)"
    if "parse_gps_data parse now raw = Some loc"
  proof -
    from that have "scan_lines parse now (split_on CHR 0x0A raw) = Inr (Some loc)"
      by (simp add: parse_gps_data_def split: sum.splits)
    from scan_lines_SomeD [OF this] obtain l msg where
      l: "l \<in> set (split_on CHR 0x0A raw)" "parse (strip l) = Inr msg"
        "if startswith (strip l) ''$GPGGA'' then loc = gga_location msg now
         else startswith (strip l) ''$GPRMC'' \<and> loc = rmc_location msg now"
      by blast
    from l(3) have "latitude loc = Some (msg_latitude msg) \<and> longitude loc = Some (msg_longitude msg)"
      by (auto simp: gga_location_def rmc_location_def split: if_splits)
    with l(1,2) show ?thesis by blast
  qed
  show ?thesis using 1 2 3 by blast
qed

lemma dec_float_samples:
  "dec_float ''99'' = Some 99" "dec_float ''00'' = Some 0" "dec_float ''000'' = Some 0"
  by (simp_all add: dec_float_def strip_def py_isspace_def unsigned_float_def is_digit_def digits_val_def)

lemma parse_nmea_latitude_99:
  "parse_nmea dec_float 0 ''$GPGGA,1,9900,N,00000,E'' = Some \<lparr> lat = 99, lon = 0, time = 0 \<rparr>"
  by (simp add: parse_nmea_def nmea_lines.simps(2) startswith_def gga_fields_def dec_float_samples)

lemma no_fix_sentence_fields:
  "split_on CHR 0x0A no_fix_sentence = [no_fix_sentence]"
  "split_on CHR '','' no_fix_sentence ! 2 = []" "split_on CHR '','' no_fix_sentence ! 4 = []"
  "strip no_fix_sentence = no_fix_sentence" "startswith no_fix_sentence ''$GPGGA''"
  by (simp_all add: no_fix_sentence_def strip_def py_isspace_def startswith_def)

lemma parse_nmea_no_fix_sentence: "parse_nmea dec_float 0 no_fix_sentence = None"
  by (rule parse_nmea_unresolved_fields) (simp add: no_fix_sentence_fields)

lemma parse_gps_data_no_fix_sentence:
  "parse_gps_data pynmea2_without_fix 0 no_fix_sentence = Some (gga_location unresolved_gga 0)"
  by (simp add: parse_gps_data_def no_fix_sentence_fields scan_lines_gga pynmea2_without_fix_def)

text \<open>
  The theorem at a \<open>$GPGGA\<close> line with latitude field 9900, at the sentence of a
  receiver without lock, and at the sample sentence.
\<close>

theorem C8_coordinates_as_decoded_witness:
  "(\<exists>l\<in>set (split_on CHR 0x0A ''$GPGGA,1,9900,N,00000,E''). \<exists>d m d' m'.
          startswith l ''$GPGGA'' \<and> 5 < length (split_on CHR '','' l)
        \<and> split_on CHR '','' l ! 2 \<noteq> [] \<and> split_on CHR '','' l ! 4 \<noteq> []
        \<and> dec_float (take 2 (split_on CHR '','' l ! 2)) = Some d
        \<and> dec_float (drop 2 (split_on CHR '','' l ! 2)) = Some m
        \<and> dec_float (take 3 (split_on CHR '','' l ! 4)) = Some d'
        \<and> dec_float (drop 3 (split_on CHR '','' l ! 4)) = Some m'
        \<and> (99::real) = (if split_on CHR '','' l ! 3 = ''S'' then - (d + m / 60) else d + m / 60)
        \<and> (0::real) = (if split_on CHR '','' l ! 5 = ''W'' then - (d' + m' / 60) else d' + m' / 60))
   \<and> parse_nmea dec_float 0 no_fix_sentence = None
   \<and> (\<exists>l\<in>set (split_on CHR 0x0A ''$GPRMC,ok''). \<exists>msg. sample_pynmea2 (strip l) = Inr msg
        \<and> latitude (rmc_location rmc_10_knots 0) = Some (msg_latitude msg)
        \<and> longitude (rmc_location rmc_10_knots 0) = Some (msg_longitude msg))"
proof -
  note a = C8_coordinates_as_decoded [where float_of = dec_float and now = 0
          and data = "''$GPGGA,1,9900,N,00000,E''" and fx = "\<lparr> lat = 99, lon = 0, time = 0 \<rparr>"
          and parse = sample_pynmea2 and raw = "''$GPRMC,ok''"
          and loc = "rmc_location rmc_10_knots 0"]
  note b = C8_coordinates_as_decoded [where float_of = dec_float and now = 0
          and data = no_fix_sentence]
  have 1: "\<exists>l\<in>set (split_on CHR 0x0A ''$GPGGA,1,9900,N,00000,E''). \<exists>d m d' m'.
          startswith l ''$GPGGA'' \<and> 5 < length (split_on CHR '','' l)
        \<and> split_on CHR '','' l ! 2 \<noteq> [] \<and> split_on CHR '','' l ! 4 \<noteq> []
        \<and> dec_float (take 2 (split_on CHR '','' l ! 2)) = Some d
        \<and> dec_float (drop 2 (split_on CHR '','' l ! 2)) = Some m
        \<and> dec_float (take 3 (split_on CHR '','' l ! 4)) = Some d'
        \<and> dec_float (drop 3 (split_on CHR '','' l ! 4)) = Some m'
        \<and> (99::real) = (if split_on CHR '','' l ! 3 = ''S'' then - (d + m / 60) else d + m / 60)
        \<and> (0::real) = (if split_on CHR '','' l ! 5 = ''W'' then - (d' + m' / 60) else d' + m' / 60)"
    using a parse_nmea_latitude_99 by simp
  have 2: "parse_nmea dec_float 0 no_fix_sentence = None"
    using b by (simp add: no_fix_sentence_fields)
  have 3: "\<exists>l\<in>set (split_on CHR 0x0A ''$GPRMC,ok''). \<exists>msg. sample_pynmea2 (strip l) = Inr msg
        \<and> latitude (rmc_location rmc_10_knots 0) = Some (msg_latitude msg)
        \<and> longitude (rmc_location rmc_10_knots 0) = Some (msg_longitude msg)"
    using a new_decodes_sample by simp
  show ?thesis using 1 2 3 by blast
qed

text \<open>
  Claim C8 as stated fails twice. The latitude field 9900 decodes to a fix at latitude
  99, outside [-90, 90]. And for the sentence of a receiver without lock, whose
  coordinate fields are empty, \<open>parse_gps_data\<close> builds a fix at (0, 0) where
  \<open>parse_nmea\<close> returns none.
\<close>

theorem C8_out_of_range_and_unresolved_fix:
  "parse_nmea dec_float 0 ''$GPGGA,1,9900,N,00000,E'' = Some \<lparr> lat = 99, lon = 0, time = 0 \<rparr>
   \<and> \<not> (99::real) \<le> 90
   \<and> split_on CHR '','' no_fix_sentence ! 2 = [] \<and> split_on CHR '','' no_fix_sentence ! 4 = []
   \<and> parse_gps_data pynmea2_without_fix 0 no_fix_sentence = Some (gga_location unresolved_gga 0)
   \<and> latitude (gga_location unresolved_gga 0) = Some 0
   \<and> longitude (gga_location unresolved_gga 0) = Some 0
   \<and> parse_nmea dec_float 0 no_fix_sentence = None"
  using parse_nmea_latitude_99 parse_gps_data_no_fix_sentence parse_nmea_no_fix_sentence
  by (simp add: no_fix_sentence_fields gga_location_def unresolved_gga_def)

section \<open>The tracking loop\<close>

lemma get_gps_location_no_fix:
  "no_fix parse inp \<Longrightarrow> get_gps_location parse (fst inp) (snd inp) t = (None, t)"
  by (auto simp: no_fix_def get_gps_location_def split: option.splits)

lemma tracking_cycle_no_fix_eq:
  assumes "no_fix parse inp"
  shows "tracking_cycle parse inp (v, t) =
     (let v2 = v \<lparr> update_count := update_count v + 1,
                    consecutive_failures := consecutive_failures v + 1 \<rparr> in
      if consecutive_failures v2 \<ge> 6 then
        (let msg = GPS_signal_lost (consecutive_failures v2 * update_interval t) in
         case current_location t of
           None \<Rightarrow> (v2, trigger_alert ''GPS_LOST'' msg 0 0 (fst inp) t)
         | Some cur \<Rightarrow>
             (case (latitude cur, longitude cur) of
                (Some la, Some lo) \<Rightarrow> (v2, trigger_alert ''GPS_LOST'' msg la lo (fst inp) t)
              | _ \<Rightarrow> (v2, t)))
      else (v2, t))"
  by (simp add: tracking_cycle_def Let_def get_gps_location_no_fix [OF assms])


lemma tracking_cycle_no_fix:
  assumes "no_fix parse inp"
  shows "fst (tracking_cycle parse inp (v, t))
           = v \<lparr> update_count := update_count v + 1,
                 consecutive_failures := consecutive_failures v + 1 \<rparr>"
  unfolding tracking_cycle_no_fix_eq [OF assms]
  by (simp add: Let_def split: option.splits)

lemma tracking_cycle_below_threshold:
  assumes "no_fix parse inp" "consecutive_failures v + 1 < 6"
  shows "snd (tracking_cycle parse inp (v, t)) = t"
  unfolding tracking_cycle_no_fix_eq [OF assms(1)]
  using assms(2) by (simp add: Let_def)

lemma tracking_cycle_at_threshold:
  assumes "no_fix parse inp" "6 \<le> consecutive_failures v + 1" "coords_known t"
  shows "\<exists>la lo. snd (tracking_cycle parse inp (v, t))
           = trigger_alert ''GPS_LOST''
               (GPS_signal_lost ((consecutive_failures v + 1) * update_interval t)) la lo (fst inp) t"
proof (cases "current_location t")
  case None
  then show ?thesis
    unfolding tracking_cycle_no_fix_eq [OF assms(1)] using assms(2)
    by (simp add: Let_def) blast
next
  case (Some cur)
  with assms(3) obtain la lo where "latitude cur = Some la" "longitude cur = Some lo"
    by (auto simp: coords_known_def)
  with Some show ?thesis
    unfolding tracking_cycle_no_fix_eq [OF assms(1)] using assms(2)
    by (simp add: Let_def) blast
qed

lemma tracking_loop_append:
  "tracking_loop parse (xs @ ys) st = tracking_loop parse ys (tracking_loop parse xs st)"
  by (induction xs arbitrary: st) simp_all

lemma tracking_loop_below_threshold:
  assumes "\<forall>inp\<in>set inps. no_fix parse inp" "consecutive_failures v + length inps < 6"
  shows "tracking_loop parse inps (v, t)
           = (v \<lparr> update_count := update_count v + length inps,
                  consecutive_failures := consecutive_failures v + length inps \<rparr>, t)"
  using assms
proof (induction inps arbitrary: v)
  case Nil
  then show ?case by simp
next
  case (Cons inp inps)
  let ?v = "v \<lparr> update_count := update_count v + 1,
                 consecutive_failures := consecutive_failures v + 1 \<rparr>"
  have nf: "no_fix parse inp" using Cons.prems by simp
  have lt: "consecutive_failures v + 1 < 6" using Cons.prems by simp
  have step: "tracking_cycle parse inp (v, t) = (?v, t)"
    using tracking_cycle_no_fix [OF nf, of v t] tracking_cycle_below_threshold [OF nf lt, of t]
    by (simp add: prod_eq_iff)
  have "tracking_loop parse inps (?v, t)
          = (?v \<lparr> update_count := update_count ?v + length inps,
                   consecutive_failures := consecutive_failures ?v + length inps \<rparr>, t)"
    using Cons.prems by (intro Cons.IH) simp_all
  then show ?case by (simp add: step)
qed


lemma fix_resets_counter:
  assumes "fst (get_gps_location parse (fst inp) (snd inp) (snd st)) = Some loc"
  shows "consecutive_failures (fst (tracking_cycle parse inp st)) = 0"
proof -
  obtain t1 where g: "get_gps_location parse (fst inp) (snd inp) (snd st) = (Some loc, t1)"
    using assms by (cases "get_gps_location parse (fst inp) (snd inp) (snd st)") simp
  show ?thesis
    by (simp add: tracking_cycle_def Let_def g split: option.splits)
qed

lemma six_cycles_without_fix:
  assumes "consecutive_failures v = 0" "length inps = 6"
    and "\<forall>inp\<in>set inps. no_fix parse inp" "coords_known t"
  shows "(\<exists>row. alerts (snd (tracking_loop parse inps (v, t))) = alerts t @ [row]
               \<and> alert_type row = ''GPS_LOST''
               \<and> message row = GPS_signal_lost (6 * update_interval t))
       \<and> alerts (snd (tracking_loop parse (take 5 inps) (v, t))) = alerts t"
proof -
  let ?v5 = "v \<lparr> update_count := update_count v + 5, consecutive_failures := 5 \<rparr>"
  have nf5: "\<forall>inp\<in>set (take 5 inps). no_fix parse inp"
    using assms(3) by (auto dest: in_set_takeD)
  have five: "tracking_loop parse (take 5 inps) (v, t) = (?v5, t)"
    using tracking_loop_below_threshold [OF nf5, of v t] assms(1,2) by simp
  have split: "inps = take 5 inps @ [inps ! 5]"
    using assms(2) take_Suc_conv_app_nth [of 5 inps] by simp
  have nf: "no_fix parse (inps ! 5)" using assms(2,3) by simp
  have ge: "6 \<le> consecutive_failures ?v5 + 1" by simp
  have "tracking_loop parse inps (v, t) = tracking_cycle parse (inps ! 5) (?v5, t)"
    by (subst split) (simp add: tracking_loop_append five)
  moreover obtain la lo where
    "snd (tracking_cycle parse (inps ! 5) (?v5, t))
       = trigger_alert ''GPS_LOST'' (GPS_signal_lost ((consecutive_failures ?v5 + 1) * update_interval t))
           la lo (fst (inps ! 5)) t"
    using tracking_cycle_at_threshold [OF nf ge assms(4)] by blast
  ultimately have "\<exists>row. alerts (snd (tracking_loop parse inps (v, t))) = alerts t @ [row]
               \<and> alert_type row = ''GPS_LOST''
               \<and> message row = GPS_signal_lost (6 * update_interval t)"
    by (simp add: trigger_alert_def Let_def)
  with five show ?thesis by simp
qed


lemma parse_gps_data_coords:
  assumes "parse_gps_data parse now raw = Some loc"
  shows "latitude loc \<noteq> None \<and> longitude loc \<noteq> None"
proof -
  from assms have "scan_lines parse now (split_on CHR 0x0A raw) = Inr (Some loc)"
    by (simp add: parse_gps_data_def split: sum.splits)
  from scan_lines_SomeD [OF this] show ?thesis
    by (auto simp: gga_location_def rmc_location_def split: if_splits)
qed

lemma check_geofence_current_location:
  "current_location (snd (check_geofence loc now t)) = current_location t"
  by (simp add: check_geofence_def Let_def split: option.splits)

lemma coords_known_initial: "coords_known (initial_tracker m)"
  by (simp add: coords_known_def)

lemma coords_known_cycle:
  assumes "coords_known t"
  shows "coords_known (snd (tracking_cycle parse inp (v, t)))"
proof (cases "no_fix parse inp")
  case True
  show ?thesis
    unfolding tracking_cycle_no_fix_eq [OF True] using assms
    by (auto simp: Let_def coords_known_def split: option.splits)
next
  case False
  then obtain raw loc where r: "snd inp = Some raw" "parse_gps_data parse (fst inp) raw = Some loc"
    by (auto simp: no_fix_def split: option.splits)
  have g: "get_gps_location parse (fst inp) (snd inp) t = (Some loc, t \<lparr> current_location := Some loc \<rparr>)"
    using r by (simp add: get_gps_location_def)
  obtain la lo where c: "latitude loc = Some la" "longitude loc = Some lo"
    using parse_gps_data_coords [OF r(2)] by auto
  show ?thesis
    using c
    by (simp add: tracking_cycle_def Let_def g coords_known_def store_location_def
          check_geofence_current_location)
qed

text \<open>
  Claim C2. From a failure counter of 0, six consecutive polls without a fix insert
  exactly one \<open>GPS_LOST\<close> alert, at the sixth (its message gives 6 times the update
  interval in seconds); the first five insert none; and a poll with a fix sets the
  counter to 0.
\<close>
theorem C2_gps_lost_at_sixth_cycle:
  assumes "consecutive_failures v = 0" "length inps = 6"
    and "\<forall>inp\<in>set inps. no_fix parse inp" "coords_known t"
  shows "(\<exists>row. alerts (snd (tracking_loop parse inps (v, t))) = alerts t @ [row]
               \<and> alert_type row = ''GPS_LOST''
               \<and> message row = GPS_signal_lost (6 * update_interval t))
       \<and> alerts (snd (tracking_loop parse (take 5 inps) (v, t))) = alerts t
       \<and> (fst (get_gps_location parse (fst inp') (snd inp') (snd st)) = Some loc
            \<longrightarrow> consecutive_failures (fst (tracking_cycle parse inp' st)) = 0)"
  using six_cycles_without_fix [OF assms] fix_resets_counter [of parse inp' st loc]
  by blast

text \<open>
  The theorem from the initial state under the default configuration (interval 10 s),
  with six empty reads, and with a decodable read after five failures.
\<close>

theorem C2_gps_lost_at_sixth_cycle_witness:
  "(\<exists>row. alerts (snd (tracking_loop sample_pynmea2 (replicate 6 (0, None))
                          (initial_vars, initial_tracker None))) = [row]
          \<and> alert_type row = ''GPS_LOST'' \<and> message row = GPS_signal_lost 60)
   \<and> alerts (snd (tracking_loop sample_pynmea2 (replicate 5 (0, None))
                     (initial_vars, initial_tracker None))) = []
   \<and> consecutive_failures (fst (tracking_cycle sample_pynmea2 (0, Some ''$GPRMC,ok'')
        (\<lparr> update_count = 5, consecutive_failures = 5 \<rparr>, initial_tracker None))) = 0"
proof -
  have h1: "consecutive_failures initial_vars = 0" by (simp add: initial_vars_def)
  have h2: "length (replicate 6 (0::nat, None :: string option)) = 6" by simp
  have h3: "\<forall>inp\<in>set (replicate 6 (0::nat, None :: string option)). no_fix sample_pynmea2 inp"
    by (simp add: no_fix_def)
  have g: "fst (get_gps_location sample_pynmea2 (fst (0::nat, Some ''$GPRMC,ok''))
                  (snd (0::nat, Some ''$GPRMC,ok''))
                  (snd (\<lparr> update_count = 5, consecutive_failures = 5 \<rparr>, initial_tracker None)))
             = Some (rmc_location rmc_10_knots 0)"
    by (simp add: get_gps_location_def new_decodes_sample)
  have t5: "take 5 (replicate 6 (0::nat, None :: string option)) = replicate 5 (0, None)"
    by simp
  show ?thesis
    using C2_gps_lost_at_sixth_cycle [OF h1 h2 h3 coords_known_initial,
            where inp' = "(0, Some ''$GPRMC,ok'')"
              and st = "(\<lparr> update_count = 5, consecutive_failures = 5 \<rparr>, initial_tracker None)"
              and loc = "rmc_location rmc_10_knots 0"]
          g
    unfolding t5 by simp
qed

end
